theory Spec2Isabelle
  imports Main "HOL-Library.Sublist"
begin

section \<open>Python text\<close>

text \<open>
  A Python \<open>str\<close> is a sequence of Unicode code points, so a text is a list of
  natural numbers. The keyword lists of the classifier hold the code points
  U+00D3 and U+00C9 (the source file stores them precomposed), which is why
  the byte strings of HOL are not used for the texts themselves.
\<close>

type_synonym pystr = "nat list"

definition lit :: "string \<Rightarrow> pystr" where
  "lit s = map of_char s"

text \<open>
  \<open>str.upper()\<close> maps every code point on its own to its full upper-case
  mapping (one or more code points) and concatenates the results. The part of
  the mapping for the code points below 256 is written out; the rest of the
  Unicode table is the parameter \<open>tbl\<close>.
\<close>

definition upper_char :: "(nat \<Rightarrow> pystr) \<Rightarrow> nat \<Rightarrow> pystr" where
  "upper_char tbl c =
     (if 97 \<le> c \<and> c \<le> 122 then [c - 32]
      else if c < 128 then [c]
      else if c = 181 then [924]
      else if c = 223 then [83, 83]
      else if c = 255 then [376]
      else if 224 \<le> c \<and> c \<le> 254 \<and> c \<noteq> 247 then [c - 32]
      else if c < 256 then [c]
      else tbl c)"

definition upper :: "(nat \<Rightarrow> pystr) \<Rightarrow> pystr \<Rightarrow> pystr" where
  "upper tbl s = concat (map (upper_char tbl) s)"

section \<open>The classifier (aplicacion.py, clasificar_paciente)\<close>

datatype clasificacion = CRITICO | CONTROL | ALERTA | GENERAL

text \<open>The text that the function returns for each tier.\<close>

fun nombre_clasificacion :: "clasificacion \<Rightarrow> pystr" where
  "nombre_clasificacion CRITICO = lit ''CR'' @ [205] @ lit ''TICO''"
| "nombre_clasificacion CONTROL = lit ''CONTROL''"
| "nombre_clasificacion ALERTA = lit ''ALERTA''"
| "nombre_clasificacion GENERAL = lit ''GENERAL''"

definition keywords_critico :: "pystr list" where
  "keywords_critico =
     [lit ''DIABETES'', lit ''INFARTO'', lit ''ACV'', lit ''INSUFICIENCIA'']"

definition keywords_control :: "pystr list" where
  "keywords_control =
     [lit ''HIPERTENSI'' @ [211] @ lit ''N'', lit ''LOSARTAN'', lit ''ENALAPRIL'']"

definition keywords_alerta :: "pystr list" where
  "keywords_alerta =
     [lit ''COLESTEROL'', lit ''TRIGLIC'' @ [201] @ lit ''RIDOS'', lit ''OBESIDAD'']"

text \<open>
  \<open>k in texto\<close> on two texts is the test for a contiguous occurrence,
  \<^const>\<open>sublist\<close>; \<open>any(... for k in ks)\<close> is \<^const>\<open>list_ex\<close>.
\<close>

definition clasificar_paciente :: "(nat \<Rightarrow> pystr) \<Rightarrow> pystr \<Rightarrow> pystr \<Rightarrow> clasificacion" where
  "clasificar_paciente tbl diagnostico tratamiento =
     (let texto = upper tbl (diagnostico @ lit '' '' @ tratamiento) in
      if list_ex (\<lambda>k. sublist k texto) keywords_critico then CRITICO
      else if list_ex (\<lambda>k. sublist k texto) keywords_control then CONTROL
      else if list_ex (\<lambda>k. sublist k texto) keywords_alerta then ALERTA
      else GENERAL)"

subsection \<open>The classifier as the specification words it\<close>

text \<open>
  The specification: upper-case the two fields joined by one space, then go
  through the tiers in the order CRITICAL, CONTROL, ALERT and return the first
  one whose keyword list has a member that occurs as a substring; GENERAL when
  none has. An occurrence is given by a start position.
\<close>

definition occurs_at :: "pystr \<Rightarrow> pystr \<Rightarrow> nat \<Rightarrow> bool" where
  "occurs_at k s i = (i + length k \<le> length s \<and> take (length k) (drop i s) = k)"

definition occurs_in :: "pystr \<Rightarrow> pystr \<Rightarrow> bool" where
  "occurs_in k s = list_ex (occurs_at k s) [0..<Suc (length s)]"

definition spec_tiers :: "(clasificacion \<times> pystr list) list" where
  "spec_tiers =
     [(CRITICO, [lit ''DIABETES'', lit ''INFARTO'', lit ''ACV'', lit ''INSUFICIENCIA'']),
      (CONTROL, [lit ''HIPERTENSI'' @ [211] @ lit ''N'', lit ''LOSARTAN'', lit ''ENALAPRIL'']),
      (ALERTA, [lit ''COLESTEROL'', lit ''TRIGLIC'' @ [201] @ lit ''RIDOS'', lit ''OBESIDAD''])]"

fun first_tier :: "(clasificacion \<times> pystr list) list \<Rightarrow> pystr \<Rightarrow> clasificacion" where
  "first_tier [] s = GENERAL"
| "first_tier ((tier, ks) # rest) s =
     (if list_ex (\<lambda>k. occurs_in k s) ks then tier else first_tier rest s)"

definition classify_spec :: "(nat \<Rightarrow> pystr) \<Rightarrow> pystr \<Rightarrow> pystr \<Rightarrow> clasificacion" where
  "classify_spec tbl d t = first_tier spec_tiers (upper tbl (d @ [32] @ t))"

section \<open>Cell values and their text\<close>

text \<open>
  A cell of a spreadsheet record or of a DataFrame holds a text, an integer, a
  float or \<open>None\<close>. Floats stay abstract (the type parameter \<open>'f\<close>); the text
  that \<open>str\<close> gives for a float is the parameter \<open>fmt\<close>.
\<close>

datatype 'f valor = VStr pystr | VInt int | VFloat 'f | VNone

fun str_nat :: "nat \<Rightarrow> pystr" where
  "str_nat n = (if n < 10 then [48 + n] else str_nat (n div 10) @ [48 + n mod 10])"

declare str_nat.simps [simp del]

definition str_int :: "int \<Rightarrow> pystr" where
  "str_int i = (if i < 0 then 45 # str_nat (nat (- i)) else str_nat (nat i))"

definition py_str :: "('f \<Rightarrow> pystr) \<Rightarrow> 'f valor \<Rightarrow> pystr" where
  "py_str fmt v =
     (case v of VStr s \<Rightarrow> s | VInt i \<Rightarrow> str_int i | VFloat x \<Rightarrow> fmt x | VNone \<Rightarrow> lit ''None'')"

text \<open>\<open>str.strip()\<close> removes the white space of Unicode at both ends.\<close>

definition isspace :: "nat \<Rightarrow> bool" where
  "isspace c =
     (c \<in> set [9, 10, 11, 12, 13, 28, 29, 30, 31, 32, 133, 160, 5760,
                8232, 8233, 8239, 8287, 12288]
      \<or> (8192 \<le> c \<and> c \<le> 8202))"

definition strip :: "pystr \<Rightarrow> pystr" where
  "strip s = rev (dropWhile isspace (rev (dropWhile isspace s)))"

text \<open>\<open>s.split(sep)\<close> for a separator of one code point.\<close>

fun split_char :: "nat \<Rightarrow> pystr \<Rightarrow> pystr list" where
  "split_char sep [] = [[]]"
| "split_char sep (c # cs) =
     (if c = sep then [] # split_char sep cs
      else (case split_char sep cs of
              [] \<Rightarrow> [[c]]
            | p # ps \<Rightarrow> (c # p) # ps))"

section \<open>Cleaning the roster ids (google\_sheets.py, get\_padron\_df)\<close>

text \<open>
  \<open>df["dni"].astype(str).str.strip().str.split(".").str[0]\<close>, on one cell: the
  cast is taken cell by cell. \<open>.str[0]\<close> gives the missing value, here
  \<open>None\<close>, when the list has no first element.
\<close>

definition str_get0 :: "pystr list \<Rightarrow> pystr option" where
  "str_get0 ps = (case ps of [] \<Rightarrow> None | p # _ \<Rightarrow> Some p)"

definition normalizar_dni :: "('f \<Rightarrow> pystr) \<Rightarrow> 'f valor \<Rightarrow> pystr option" where
  "normalizar_dni fmt v = str_get0 (split_char 46 (strip (py_str fmt v)))"

text \<open>
  The specification's \<open>normalizeId\<close>: cast to a string, trim, and if the string
  contains a decimal point, cut it at the first one and keep the prefix.
\<close>

definition normalizeId_spec :: "('f \<Rightarrow> pystr) \<Rightarrow> 'f valor \<Rightarrow> pystr" where
  "normalizeId_spec fmt v =
     (let s = strip (py_str fmt v) in
      if 46 \<in> set s then takeWhile (\<lambda>c. c \<noteq> 46) s else s)"

section \<open>DataFrames\<close>

text \<open>
  A DataFrame is its list of column names and its rows; a row maps a column
  name to the cell, and has no entry where pandas holds the missing value.
\<close>

record 'f dataframe =
  columnas :: "pystr list"
  filas :: "(pystr \<rightharpoonup> 'f valor) list"

datatype error =
    KeyError pystr | APIError | StreamlitAPIException pystr
  | ZeroDivisionError | OverflowError

text \<open>\<open>astype(str)\<close> on a cell; the missing value is a float and prints as \<open>nan\<close>.\<close>

definition astype_str :: "('f \<Rightarrow> pystr) \<Rightarrow> 'f valor option \<Rightarrow> 'f valor" where
  "astype_str fmt c = (case c of None \<Rightarrow> VStr (lit ''nan'') | Some v \<Rightarrow> VStr (py_str fmt v))"

text \<open>The last block of \<open>get_padron_df\<close>, after the columns were renamed.\<close>

definition limpiar_dni :: "('f \<Rightarrow> pystr) \<Rightarrow> 'f dataframe \<Rightarrow> 'f dataframe" where
  "limpiar_dni fmt df =
     (if lit ''dni'' \<in> set (columnas df)
      then df\<lparr>filas :=
             map (\<lambda>r. r(lit ''dni'' :=
                         map_option VStr (normalizar_dni fmt (astype_str fmt (r (lit ''dni''))))))
                 (filas df)\<rparr>
      else df)"

section \<open>Looking a patient up (aplicacion.py, the search block)\<close>

record 'f sesion =
  search_dni :: pystr
  current_data :: "(pystr \<rightharpoonup> 'f valor) option"
  current_dni :: "pystr option"
  peso_input :: 'f
  estatura_input :: 'f
  pa_input :: pystr
  diag_input :: pystr
  trata_input :: pystr

text \<open>
  \<open>dni_a_buscar_limpio = str(dni_a_buscar).strip()\<close>, where \<open>dni_a_buscar\<close> is
  a text already, then \<open>padron_df[padron_df['dni'] == dni_a_buscar_limpio]\<close> and
  its first row, if there is one.
\<close>

definition buscar_dni ::
  "'f dataframe \<Rightarrow> pystr \<Rightarrow> error + (pystr \<rightharpoonup> 'f valor) option" where
  "buscar_dni padron_df dni_a_buscar =
     (let dni_a_buscar_limpio = strip dni_a_buscar in
      if lit ''dni'' \<in> set (columnas padron_df) then
        (case filter (\<lambda>r. r (lit ''dni'') = Some (VStr dni_a_buscar_limpio)) (filas padron_df) of
           [] \<Rightarrow> Inr None
         | r # _ \<Rightarrow> Inr (Some r))
      else Inl (KeyError (lit ''dni'')))"

text \<open>
  The search block. \<open>if dni_a_buscar:\<close> holds for a text that is not empty;
  \<open>current_dni\<close> is \<open>None\<close> or a text.
\<close>

definition truthy :: "pystr option \<Rightarrow> bool" where
  "truthy x = (case x of None \<Rightarrow> False | Some s \<Rightarrow> s \<noteq> [])"

definition bloque_busqueda ::
  "'f dataframe \<Rightarrow> bool \<Rightarrow> pystr \<Rightarrow> 'f sesion \<Rightarrow> error + 'f sesion" where
  "bloque_busqueda padron_df buscar_btn dni_input st =
     (if buscar_btn \<or> truthy (current_dni st) then
        (case (if buscar_btn then Some dni_input else current_dni st) of
           None \<Rightarrow> Inr st
         | Some dni_a_buscar \<Rightarrow>
             if dni_a_buscar = [] then Inr st
             else
               (case buscar_dni padron_df dni_a_buscar of
                  Inl e \<Rightarrow> Inl e
                | Inr (Some r) \<Rightarrow>
                    Inr (st\<lparr>current_data := Some r,
                            current_dni := Some (strip dni_a_buscar)\<rparr>)
                | Inr None \<Rightarrow> Inr (st\<lparr>current_data := None, current_dni := None\<rparr>)))
      else Inr st)"

text \<open>
  The specification's \<open>findById\<close> as the claim words it: the query goes through
  the normalization of the roster ids (cast, trim, cut at the first point).
\<close>

definition findById_spec ::
  "('f \<Rightarrow> pystr) \<Rightarrow> 'f dataframe \<Rightarrow> pystr \<Rightarrow> (pystr \<rightharpoonup> 'f valor) option" where
  "findById_spec fmt roster q =
     find (\<lambda>r. r (lit ''dni'') = Some (VStr (normalizeId_spec fmt (VStr q)))) (filas roster)"

section \<open>The quarter label (aplicacion.py)\<close>

text \<open>
  \<open>pd.to_datetime('today')\<close> reads the clock; the timestamp it gives is an
  argument here. The \<open>quarter\<close> of a pandas timestamp is
  \<open>(month - 1) // 3 + 1\<close>.
\<close>

record timestamp =
  year :: int
  month :: int
  day :: int
  hour :: int
  minute :: int
  second :: int

definition quarter :: "timestamp \<Rightarrow> int" where
  "quarter ts = (month ts - 1) div 3 + 1"

definition trimestre_str :: "timestamp \<Rightarrow> pystr" where
  "trimestre_str fecha_actual =
     lit ''Q'' @ str_int (quarter fecha_actual) @ lit ''-'' @ str_int (year fecha_actual)"

definition pad0 :: "nat \<Rightarrow> pystr \<Rightarrow> pystr" where
  "pad0 n s = replicate (n - length s) 48 @ s"

definition strftime :: "timestamp \<Rightarrow> pystr" where
  "strftime ts =
     pad0 4 (str_int (year ts)) @ lit ''-'' @ pad0 2 (str_int (month ts)) @ lit ''-''
     @ pad0 2 (str_int (day ts)) @ lit '' '' @ pad0 2 (str_int (hour ts)) @ lit '':''
     @ pad0 2 (str_int (minute ts)) @ lit '':'' @ pad0 2 (str_int (second ts))"

text \<open>
  The specification's label: \<open>Q\<close>, the calendar quarter of the month (months
  1 to 3 give 1, 4 to 6 give 2, 7 to 9 give 3, 10 to 12 give 4), a hyphen and
  the year.
\<close>

definition quarter_spec :: "int \<Rightarrow> int" where
  "quarter_spec m =
     (if m \<in> {1, 2, 3} then 1 else if m \<in> {4, 5, 6} then 2
      else if m \<in> {7, 8, 9} then 3 else 4)"

definition quarterLabel_spec :: "int \<Rightarrow> int \<Rightarrow> pystr" where
  "quarterLabel_spec y m = lit ''Q'' @ str_int (quarter_spec m) @ lit ''-'' @ str_int y"

section \<open>Binary floating point\<close>

text \<open>
  A Python \<open>float\<close> is an IEEE 754 binary64 number. \<open>Finite m e\<close> is the
  number \<open>m * 2 ^ e\<close>, kept with an odd \<open>m\<close> (zero is \<open>Finite 0 0\<close>, and
  the sign of zero is not kept); the other values are the two infinities and
  not-a-number.

  \<open>redondear neg n d k\<close> is the binary64 number nearest to
  \<open>n / d * 2 ^ k\<close> (negated when \<open>neg\<close>), ties going to the even mantissa:
  53 bits of mantissa, the last place not below \<open>2 ^ - 1074\<close>, and an
  infinity from \<open>2 ^ 1024\<close> on.
\<close>

datatype b64 = Finite int int | PInf | NInf | NaN

fun bitlen :: "nat \<Rightarrow> nat" where
  "bitlen n = (if n = 0 then 0 else Suc (bitlen (n div 2)))"

declare bitlen.simps [simp del]

fun normal :: "nat \<Rightarrow> int \<Rightarrow> nat \<times> int" where
  "normal m e =
     (if m = 0 then (0, 0) else if even m then normal (m div 2) (e + 1) else (m, e))"

declare normal.simps [simp del]

definition rne_div :: "nat \<Rightarrow> nat \<Rightarrow> nat" where
  "rne_div n d =
     (let q = n div d; r = n mod d
      in if 2 * r < d then q else if d < 2 * r then q + 1
         else if even q then q else q + 1)"

definition ilog2_ratio :: "nat \<Rightarrow> nat \<Rightarrow> int" where
  "ilog2_ratio n d =
     (let b = int (bitlen n) - int (bitlen d)
      in if (if 0 \<le> b then d * 2 ^ nat b \<le> n else d \<le> n * 2 ^ nat (- b))
         then b else b - 1)"

definition redondear :: "bool \<Rightarrow> nat \<Rightarrow> nat \<Rightarrow> int \<Rightarrow> b64" where
  "redondear neg n d k =
     (if n = 0 then Finite 0 0
      else
        (let u = max (ilog2_ratio n d + k - 52) (- 1074);
             m = (if u \<le> k then rne_div (n * 2 ^ nat (k - u)) d
                  else rne_div n (d * 2 ^ nat (u - k)))
         in if 1024 < int (bitlen m) + u then (if neg then NInf else PInf)
            else (case normal m u of
                    (m', e') \<Rightarrow> Finite (if neg then - int m' else int m') e')))"

text \<open>The float of a decimal literal \<open>n / d\<close>, as in \<open>1.75\<close> or \<open>1e-200\<close>.\<close>

definition decimal :: "nat \<Rightarrow> nat \<Rightarrow> b64" where
  "decimal n d = redondear False n d 0"

text \<open>\<open>x > 0\<close>.\<close>

definition gt0 :: "b64 \<Rightarrow> bool" where
  "gt0 x = (case x of Finite m e \<Rightarrow> 0 < m | PInf \<Rightarrow> True | NInf \<Rightarrow> False | NaN \<Rightarrow> False)"

text \<open>
  \<open>x ** 2\<close>: the rounded square; a result too small becomes zero without an
  error, a result too large raises \<open>OverflowError\<close>.
\<close>

definition float_pow2 :: "b64 \<Rightarrow> error + b64" where
  "float_pow2 x =
     (case x of
        Finite m e \<Rightarrow>
          (case redondear False (nat (m * m)) 1 (2 * e) of
             Finite m' e' \<Rightarrow> Inr (Finite m' e')
           | _ \<Rightarrow> Inl OverflowError)
      | PInf \<Rightarrow> Inr PInf
      | NInf \<Rightarrow> Inr PInf
      | NaN \<Rightarrow> Inr NaN)"

text \<open>
  \<open>a / b\<close>: a zero divisor raises \<open>ZeroDivisionError\<close>; the quotient is
  rounded, and one too large is an infinity, with no error.
\<close>

definition float_div :: "b64 \<Rightarrow> b64 \<Rightarrow> error + b64" where
  "float_div a b =
     (case b of
        Finite m2 e2 \<Rightarrow>
          if m2 = 0 then Inl ZeroDivisionError
          else (case a of
                  Finite m1 e1 \<Rightarrow>
                    Inr (redondear ((m1 < 0) \<noteq> (m2 < 0)) (nat \<bar>m1\<bar>) (nat \<bar>m2\<bar>) (e1 - e2))
                | PInf \<Rightarrow> Inr (if 0 < m2 then PInf else NInf)
                | NInf \<Rightarrow> Inr (if 0 < m2 then NInf else PInf)
                | NaN \<Rightarrow> Inr NaN)
      | NaN \<Rightarrow> Inr NaN
      | _ \<Rightarrow> (case a of Finite m1 e1 \<Rightarrow> Inr (Finite 0 0) | _ \<Rightarrow> Inr NaN))"

text \<open>
  \<open>round(x, 2)\<close>: the number is rounded to hundredths, ties to the even
  hundredth, and the float nearest to that decimal is returned; infinities and
  not-a-number are returned as they are.
\<close>

definition float_round2 :: "b64 \<Rightarrow> error + b64" where
  "float_round2 x =
     (case x of
        Finite m e \<Rightarrow>
          (let c = (if 0 \<le> e then nat \<bar>m\<bar> * 2 ^ nat e * 100
                    else rne_div (nat \<bar>m\<bar> * 100) (2 ^ nat (- e)))
           in case redondear (m < 0) c 100 0 of
                Finite m' e' \<Rightarrow> Inr (Finite m' e')
              | _ \<Rightarrow> Inl OverflowError)
      | _ \<Rightarrow> Inr x)"

instantiation b64 :: zero
begin

definition zero_b64 :: b64 where
  "zero_b64 = Finite 0 0"

instance ..

end

section \<open>The body-mass index (aplicacion.py)\<close>

text \<open>
  Lines 149 to 151: \<open>imc_calculado = 0.0\<close>, and under the guard
  \<open>peso > 0 and estatura > 0\<close> it is \<open>round(peso / (estatura ** 2), 2)\<close>.
  The lines stand in no \<open>try\<close>: an exception of the arithmetic ends the run.
\<close>

definition imc_calculado :: "b64 \<Rightarrow> b64 \<Rightarrow> error + b64" where
  "imc_calculado peso estatura =
     (if gt0 peso \<and> gt0 estatura then
        (case float_pow2 estatura of
           Inl e \<Rightarrow> Inl e
         | Inr cuadrado \<Rightarrow>
             (case float_div peso cuadrado of
                Inl e \<Rightarrow> Inl e
              | Inr cociente \<Rightarrow> float_round2 cociente))
      else Inr (Finite 0 0))"

section \<open>The historical log (google\_sheets.py)\<close>

text \<open>
  The spreadsheet behind \<open>sheet\<close>: the worksheet \<open>Registro_Historico\<close>, when it
  exists, is the grid of the texts its cells show, the header row first
  (what \<open>get_all_values\<close> returns). \<open>mostrar\<close> is the text a cell shows once a
  value was written with the input option \<open>USER_ENTERED\<close>, and \<open>numericise\<close>
  is what \<open>get_all_records\<close> makes of the text of a data cell; both belong to
  the spreadsheet service and its client library and are parameters. Whether
  a remote call answers or raises is given by \<open>api\<close>.
\<close>

type_synonym hoja = "pystr list list"

record planilla =
  historico :: "hoja option"

record api =
  abrir_ok :: bool
  crear_ok :: bool
  encabezado_ok :: bool
  escribir_ok :: bool
  leer_ok :: bool

definition append_values ::
  "('f valor \<Rightarrow> pystr) \<Rightarrow> api \<Rightarrow> planilla \<Rightarrow> hoja \<Rightarrow> (pystr \<times> 'f valor) list
     \<Rightarrow> planilla option \<times> (error + bool)" where
  "append_values mostrar a p h data_row =
     (if escribir_ok a
      then (Some (p\<lparr>historico := Some (h @ [map (mostrar \<circ> snd) data_row])\<rparr>), Inr True)
      else (Some (p\<lparr>historico := Some h\<rparr>), Inr False))"

definition save_historical_record ::
  "('f valor \<Rightarrow> pystr) \<Rightarrow> api \<Rightarrow> planilla option \<Rightarrow> (pystr \<times> 'f valor) list
     \<Rightarrow> planilla option \<times> (error + bool)" where
  "save_historical_record mostrar a sheet data_row =
     (case sheet of
        None \<Rightarrow> (None, Inr False)
      | Some p \<Rightarrow>
          if \<not> abrir_ok a then (sheet, Inl APIError)
          else (case historico p of
                  Some h \<Rightarrow> append_values mostrar a p h data_row
                | None \<Rightarrow>
                    if \<not> crear_ok a then (sheet, Inl APIError)
                    else if \<not> encabezado_ok a
                      then (Some (p\<lparr>historico := Some []\<rparr>), Inl APIError)
                    else append_values mostrar a p [map fst data_row] data_row))"

text \<open>
  \<open>get_all_records\<close>: the first row gives the keys; every other row, filled up
  with empty texts to the width of the header, is numericised and zipped with
  the keys. \<open>pd.DataFrame\<close> of the records has the keys as its columns; in a
  record the last of two equal keys decides, as in a dictionary.
\<close>

definition get_all_records :: "(pystr \<Rightarrow> 'f valor) \<Rightarrow> hoja \<Rightarrow> (pystr \<times> 'f valor) list list" where
  "get_all_records numericise h =
     (case h of
        [] \<Rightarrow> []
      | keys # rows \<Rightarrow>
          map (\<lambda>row. zip keys (map numericise (row @ replicate (length keys - length row) [])))
              rows)"

definition DataFrame :: "(pystr \<times> 'f valor) list list \<Rightarrow> 'f dataframe" where
  "DataFrame data =
     \<lparr>columnas = remdups (concat (map (map fst) data)),
      filas = map (\<lambda>d. map_of (rev d)) data\<rparr>"

definition set_columna :: "'f dataframe \<Rightarrow> pystr \<Rightarrow> 'f valor \<Rightarrow> 'f dataframe" where
  "set_columna df c v =
     \<lparr>columnas = (if c \<in> set (columnas df) then columnas df else columnas df @ [c]),
      filas = map (\<lambda>r. r(c \<mapsto> v)) (filas df)\<rparr>"

definition df_vacio :: "'f dataframe" where
  "df_vacio = \<lparr>columnas = [lit ''DNI'', lit ''Fecha'', lit ''Trimestre''], filas = []\<rparr>"

definition get_historical_df ::
  "(pystr \<Rightarrow> 'f valor) \<Rightarrow> api \<Rightarrow> planilla option \<Rightarrow> error + 'f dataframe" where
  "get_historical_df numericise a sheet =
     (case sheet of
        None \<Rightarrow> Inr df_vacio
      | Some p \<Rightarrow>
          if \<not> abrir_ok a then Inl APIError
          else (case historico p of
                  None \<Rightarrow> Inr df_vacio
                | Some h \<Rightarrow>
                    if \<not> leer_ok a then Inl APIError
                    else
                      (let df = DataFrame (get_all_records numericise h);
                           df = (if lit ''DNI'' \<notin> set (columnas df)
                                 then set_columna df (lit ''DNI'') (VStr []) else df);
                           df = (if lit ''Trimestre'' \<notin> set (columnas df)
                                 then set_columna df (lit ''Trimestre'') (VStr []) else df)
                       in Inr df)))"

section \<open>The visits of the quarter (aplicacion.py)\<close>

text \<open>
  \<open>history_df[(history_df['DNI'] == current_dni) & (history_df['Trimestre'] ==
  trimestre_actual_str)].shape[0]\<close>. A cell equals a text only when it holds
  that text: an integer cell, the missing value and \<open>None\<close> are different from
  every text.
\<close>

definition celda_es :: "'f valor option \<Rightarrow> pystr option \<Rightarrow> bool" where
  "celda_es c t = (case t of None \<Rightarrow> False | Some s \<Rightarrow> c = Some (VStr s))"

definition atenciones_trimestre ::
  "'f dataframe \<Rightarrow> pystr option \<Rightarrow> pystr \<Rightarrow> error + nat" where
  "atenciones_trimestre history_df dni trimestre_actual_str =
     (if lit ''DNI'' \<notin> set (columnas history_df) then Inl (KeyError (lit ''DNI''))
      else if lit ''Trimestre'' \<notin> set (columnas history_df)
        then Inl (KeyError (lit ''Trimestre''))
      else Inr (length (filter
                  (\<lambda>r. celda_es (r (lit ''DNI'')) dni
                       \<and> celda_es (r (lit ''Trimestre'')) (Some trimestre_actual_str))
                  (filas history_df))))"

text \<open>The third column of the patient card: read the log, count.\<close>

definition contar_atenciones ::
  "(pystr \<Rightarrow> 'f valor) \<Rightarrow> api \<Rightarrow> planilla option \<Rightarrow> pystr option \<Rightarrow> timestamp \<Rightarrow> error + nat" where
  "contar_atenciones numericise a sheet_conn dni fecha_actual =
     (case get_historical_df numericise a sheet_conn of
        Inl e \<Rightarrow> Inl e
      | Inr history_df \<Rightarrow> atenciones_trimestre history_df dni (trimestre_str fecha_actual))"

subsection \<open>The count as the specification words it\<close>

text \<open>
  The log is the worksheet as a grid of texts, the header row first. The field
  of a row under a column name is the text of its cell (the empty text where
  the row is shorter than the header; the last of two columns of one name),
  and is missing when the header has no such column. The count is the number
  of rows whose \<open>DNI\<close> field is the queried id and whose \<open>Trimestre\<close> field is
  the quarter label; a row with a missing field matches nothing.
\<close>

definition encabezado :: "hoja \<Rightarrow> pystr list" where
  "encabezado h = (case h of [] \<Rightarrow> [] | keys # rows \<Rightarrow> keys)"

definition celda_de :: "pystr list \<Rightarrow> pystr list \<Rightarrow> pystr \<Rightarrow> pystr option" where
  "celda_de keys row c =
     map_of (rev (zip keys (row @ replicate (length keys - length row) []))) c"

definition countVisits_spec :: "hoja \<Rightarrow> pystr \<Rightarrow> pystr \<Rightarrow> nat" where
  "countVisits_spec h q lbl =
     (case h of
        [] \<Rightarrow> 0
      | keys # rows \<Rightarrow>
          length (filter (\<lambda>row. celda_de keys row (lit ''DNI'') = Some q
                               \<and> celda_de keys row (lit ''Trimestre'') = Some lbl) rows))"

section \<open>Saving a visit (aplicacion.py, the save block)\<close>

definition dict_get :: "(pystr \<rightharpoonup> 'f valor) \<Rightarrow> pystr \<Rightarrow> 'f valor" where
  "dict_get d k = (case d k of None \<Rightarrow> VNone | Some v \<Rightarrow> v)"

text \<open>
  The record of the visit. \<open>imc_calculado\<close> is the value that lines 149 to
  151 computed in this run.
\<close>

definition record_data ::
  "(nat \<Rightarrow> pystr) \<Rightarrow> 'f \<Rightarrow> (pystr \<rightharpoonup> 'f valor) \<Rightarrow> timestamp
     \<Rightarrow> 'f sesion \<Rightarrow> (pystr \<times> 'f valor) list" where
  "record_data tbl imc data fecha_actual st =
     [(lit ''DNI'', (case current_dni st of None \<Rightarrow> VNone | Some d \<Rightarrow> VStr d)),
      (lit ''Fecha'', VStr (strftime fecha_actual)),
      (lit ''Trimestre'', VStr (trimestre_str fecha_actual)),
      (lit ''Nombre'', dict_get data (lit ''nombre'')),
      (lit ''Apellido'', dict_get data (lit ''apellido'')),
      (lit ''PA_mmhg'', VStr (pa_input st)),
      (lit ''Peso_kg'', VFloat (peso_input st)),
      (lit ''Estatura_m'', VFloat (estatura_input st)),
      (lit ''IMC'', VFloat imc),
      (lit ''Diagnostico'', VStr (diag_input st)),
      (lit ''Tratamiento'', VStr (trata_input st)),
      (lit ''Clasificacion'',
         VStr (nombre_clasificacion (clasificar_paciente tbl (diag_input st) (trata_input st))))]"

datatype aviso = Exito | ErrorGuardar | ErrorInesperado error

text \<open>
  Streamlit refuses an assignment to \<open>st.session_state.key\<close> once the widget
  with that key was instantiated in the same run: it raises
  \<open>StreamlitAPIException\<close>. When the save block runs, the script has
  instantiated the search box (line 77) and the five widgets of the form
  (lines 142 to 156). A sequence of assignments stops at the first one that
  raises and keeps what the earlier ones stored.
\<close>

definition widgets_instanciados :: "pystr list" where
  "widgets_instanciados =
     [lit ''dni_search_input'', lit ''peso_input'', lit ''estatura_input'',
      lit ''pa_input'', lit ''diag_input'', lit ''trata_input'']"

fun asignar_todo ::
  "(pystr \<times> ('f sesion \<Rightarrow> 'f sesion)) list \<Rightarrow> 'f sesion \<Rightarrow> 'f sesion \<times> error option" where
  "asignar_todo [] st = (st, None)"
| "asignar_todo ((key, upd) # rest) st =
     (if key \<in> set widgets_instanciados then (st, Some (StreamlitAPIException key))
      else asignar_todo rest (upd st))"

text \<open>Lines 196 to 200.\<close>

definition reiniciar_formulario :: "(pystr \<times> ('f::zero sesion \<Rightarrow> 'f sesion)) list" where
  "reiniciar_formulario =
     [(lit ''peso_input'', \<lambda>st. st\<lparr>peso_input := 0\<rparr>),
      (lit ''estatura_input'', \<lambda>st. st\<lparr>estatura_input := 0\<rparr>),
      (lit ''pa_input'', \<lambda>st. st\<lparr>pa_input := []\<rparr>),
      (lit ''diag_input'', \<lambda>st. st\<lparr>diag_input := []\<rparr>),
      (lit ''trata_input'', \<lambda>st. st\<lparr>trata_input := []\<rparr>)]"

text \<open>
  The block under \<open>if guardar_btn\<close>. It gives the spreadsheet, the session
  state, the messages shown in their order, and whether the cache was cleared
  and the script rerun. After a save that returned \<open>True\<close> the success message
  is shown and the form is reset; an exception raised there is caught by the
  \<open>except\<close> of the block like one raised by the save.
\<close>

definition bloque_guardar ::
  "(nat \<Rightarrow> pystr) \<Rightarrow> 'f \<Rightarrow> ('f valor \<Rightarrow> pystr) \<Rightarrow> api \<Rightarrow> planilla option
     \<Rightarrow> (pystr \<rightharpoonup> 'f valor) \<Rightarrow> timestamp \<Rightarrow> 'f::zero sesion
     \<Rightarrow> planilla option \<times> 'f sesion \<times> aviso list \<times> bool" where
  "bloque_guardar tbl imc mostrar a sheet_conn data fecha_actual st =
     (case save_historical_record mostrar a sheet_conn
             (record_data tbl imc data fecha_actual st) of
        (sheet', Inr True) \<Rightarrow>
          (case asignar_todo reiniciar_formulario st of
             (st', None) \<Rightarrow> (sheet', st', [Exito], True)
           | (st', Some e) \<Rightarrow> (sheet', st', [Exito, ErrorInesperado e], False))
      | (sheet', Inr False) \<Rightarrow> (sheet', st, [ErrorGuardar], False)
      | (sheet', Inl e) \<Rightarrow> (sheet', st, [ErrorInesperado e], False))"

text \<open>
  The form of one run, lines 138 to 208, on floats: the index is computed
  first, then the save block runs when the button was pressed.
\<close>

definition formulario_atencion ::
  "(nat \<Rightarrow> pystr) \<Rightarrow> (b64 valor \<Rightarrow> pystr) \<Rightarrow> api \<Rightarrow> planilla option
     \<Rightarrow> (pystr \<rightharpoonup> b64 valor) \<Rightarrow> timestamp \<Rightarrow> bool \<Rightarrow> b64 sesion
     \<Rightarrow> error + planilla option \<times> b64 sesion \<times> aviso list \<times> bool" where
  "formulario_atencion tbl mostrar a sheet_conn data fecha_actual guardar_btn st =
     (case imc_calculado (peso_input st) (estatura_input st) of
        Inl e \<Rightarrow> Inl e
      | Inr imc \<Rightarrow>
          if guardar_btn
          then Inr (bloque_guardar tbl imc mostrar a sheet_conn data fecha_actual st)
          else Inr (sheet_conn, st, [], False))"

text \<open>The values of the form: the five entries of the session state behind it.\<close>

definition form_data :: "'f sesion \<Rightarrow> 'f \<times> 'f \<times> pystr \<times> pystr \<times> pystr" where
  "form_data st = (peso_input st, estatura_input st, pa_input st, diag_input st, trata_input st)"

section \<open>Example data\<close>

text \<open>
  The inputs at which the theorems below are evaluated. The integers stand in
  for the floats where a session state is needed.
\<close>

definition tbl_id :: "nat \<Rightarrow> pystr" where
  "tbl_id c = [c]"

definition fmt_ej :: "int \<Rightarrow> pystr" where
  "fmt_ej x = str_int x @ lit ''.0''"

definition padron_ejemplo :: "int dataframe" where
  "padron_ejemplo =
     \<lparr>columnas = [lit ''dni'', lit ''nombre''],
      filas = [[lit ''dni'' \<mapsto> VStr (lit ''00123''), lit ''nombre'' \<mapsto> VStr (lit ''Ana'')],
               [lit ''dni'' \<mapsto> VStr (lit ''456''), lit ''nombre'' \<mapsto> VStr (lit ''Luis'')]]\<rparr>"

definition fecha_feb :: timestamp where
  "fecha_feb = \<lparr>year = 2024, month = 2, day = 15, hour = 0, minute = 0, second = 0\<rparr>"

definition fecha_jul :: timestamp where
  "fecha_jul = \<lparr>year = 2024, month = 7, day = 1, hour = 0, minute = 0, second = 0\<rparr>"

definition api_ok :: api where
  "api_ok = \<lparr>abrir_ok = True, crear_ok = True, encabezado_ok = True,
             escribir_ok = True, leer_ok = True\<rparr>"

definition api_sin_escritura :: api where
  "api_sin_escritura = \<lparr>abrir_ok = True, crear_ok = True, encabezado_ok = True,
                        escribir_ok = False, leer_ok = True\<rparr>"

definition api_sin_conexion :: api where
  "api_sin_conexion = \<lparr>abrir_ok = False, crear_ok = True, encabezado_ok = True,
                       escribir_ok = True, leer_ok = True\<rparr>"

definition sesion_ej :: "int sesion" where
  "sesion_ej =
     \<lparr>search_dni = lit ''12345678'',
      current_data = Some [lit ''dni'' \<mapsto> VStr (lit ''12345678''), lit ''nombre'' \<mapsto> VStr (lit ''Ana'')],
      current_dni = Some (lit ''12345678''),
      peso_input = 70, estatura_input = 2, pa_input = lit ''120/80'',
      diag_input = lit ''hipertension'', trata_input = lit ''dieta''\<rparr>"

definition datos_ej :: "pystr \<rightharpoonup> int valor" where
  "datos_ej = [lit ''dni'' \<mapsto> VStr (lit ''12345678''), lit ''nombre'' \<mapsto> VStr (lit ''Ana'')]"

definition imc_ej :: int where
  "imc_ej = 17"

text \<open>
  A store for the examples: a cell shows the text of the value written, and a
  text of ASCII digits is read back as the integer it denotes, any other text
  as itself.
\<close>

definition mostrar_ej :: "int valor \<Rightarrow> pystr" where
  "mostrar_ej v = py_str fmt_ej v"

definition valor_decimal :: "pystr \<Rightarrow> nat" where
  "valor_decimal s = foldl (\<lambda>n c. 10 * n + (c - 48)) 0 s"

definition numericise_ej :: "pystr \<Rightarrow> int valor" where
  "numericise_ej s =
     (if s \<noteq> [] \<and> list_all (\<lambda>c. 48 \<le> c \<and> c \<le> 57) s
      then VInt (int (valor_decimal s)) else VStr s)"

definition planilla_nueva :: planilla where
  "planilla_nueva = \<lparr>historico = None\<rparr>"

definition hoja_sin_registros :: hoja where
  "hoja_sin_registros = [[lit ''DNI'', lit ''Trimestre'']]"

definition planilla_sin_registros :: planilla where
  "planilla_sin_registros = \<lparr>historico = Some hoja_sin_registros\<rparr>"

definition hoja_sin_dni :: hoja where
  "hoja_sin_dni = [[lit ''Fecha'', lit ''Trimestre''], [lit ''2024-02-15'', lit ''Q1-2024'']]"

definition planilla_sin_dni :: planilla where
  "planilla_sin_dni = \<lparr>historico = Some hoja_sin_dni\<rparr>"

definition hoja_sin_trimestre :: hoja where
  "hoja_sin_trimestre = [[lit ''DNI'', lit ''Fecha''], [lit ''A12'', lit ''2024-02-15'']]"

definition planilla_sin_trimestre :: planilla where
  "planilla_sin_trimestre = \<lparr>historico = Some hoja_sin_trimestre\<rparr>"

text \<open>
  A log with visits of three patients, one of them with an id of digits, in
  two quarters.
\<close>

definition hoja_mixta :: hoja where
  "hoja_mixta =
     [[lit ''DNI'', lit ''Fecha'', lit ''Trimestre''],
      [lit ''A12'', lit ''2024-01-10'', lit ''Q1-2024''],
      [lit ''12345678'', lit ''2024-01-11'', lit ''Q1-2024''],
      [lit ''A12'', lit ''2023-11-02'', lit ''Q4-2023''],
      [lit ''B7'', lit ''2024-02-01'', lit ''Q1-2024''],
      [lit ''A12'', lit ''2024-02-14'', lit ''Q1-2024'']]"

definition planilla_mixta :: planilla where
  "planilla_mixta = \<lparr>historico = Some hoja_mixta\<rparr>"

text \<open>The field names of a visit record, in the order of the source.\<close>

definition campos :: "pystr list" where
  "campos = [lit ''DNI'', lit ''Fecha'', lit ''Trimestre'', lit ''Nombre'', lit ''Apellido'',
             lit ''PA_mmhg'', lit ''Peso_kg'', lit ''Estatura_m'', lit ''IMC'',
             lit ''Diagnostico'', lit ''Tratamiento'', lit ''Clasificacion'']"

text \<open>The rows of the DataFrame built from the records of a worksheet.\<close>

definition filas_de :: "(pystr \<Rightarrow> 'f valor) \<Rightarrow> hoja \<Rightarrow> (pystr \<rightharpoonup> 'f valor) list" where
  "filas_de num h = map (\<lambda>d. map_of (rev d)) (get_all_records num h)"

text \<open>
  A row once \<open>get_historical_df\<close> has added the key columns that the header
  of the worksheet lacks.
\<close>

definition completar :: "pystr list \<Rightarrow> (pystr \<rightharpoonup> 'f valor) \<Rightarrow> (pystr \<rightharpoonup> 'f valor)" where
  "completar keys r =
     (\<lambda>c. if (c = lit ''DNI'' \<or> c = lit ''Trimestre'') \<and> c \<notin> set keys then Some (VStr [])
          else r c)"

section \<open>Facts about texts\<close>

lemma lit_space: "lit '' '' = [32]"
  by (simp add: lit_def)

lemma upper_append: "upper tbl (a @ b) = upper tbl a @ upper tbl b"
  by (simp add: upper_def)

lemma upper_joined: "upper tbl (a @ 32 # b) = upper tbl a @ 32 # upper tbl b"
  by (simp add: upper_def upper_char_def)

lemma upper_fixed: "\<forall>c \<in> set k. upper_char tbl c = [c] \<Longrightarrow> upper tbl k = k"
  by (induction k) (simp_all add: upper_def)

lemma sublist_upper:
  assumes "sublist k s" and "\<forall>c \<in> set k. upper_char tbl c = [c]"
  shows "sublist k (upper tbl s)"
proof -
  from assms(1) obtain ps ss where "s = ps @ k @ ss"
    by (auto simp: sublist_def)
  then have "upper tbl s = upper tbl ps @ k @ upper tbl ss"
    by (simp add: upper_append upper_fixed [OF assms(2)])
  then show ?thesis
    by (metis sublist_appendI)
qed

lemma occurs_in_iff_sublist: "occurs_in k s \<longleftrightarrow> sublist k s"
proof
  assume "occurs_in k s"
  then obtain i where "take (length k) (drop i s) = k"
    by (auto simp: occurs_in_def occurs_at_def list_ex_iff)
  then have "s = take i s @ k @ drop (length k) (drop i s)"
    by (metis append_take_drop_id)
  then show "sublist k s"
    unfolding sublist_def by blast
next
  assume "sublist k s"
  then obtain ps ss where s: "s = ps @ k @ ss"
    by (auto simp: sublist_def)
  then have "occurs_at k s (length ps)"
    by (simp add: occurs_at_def)
  moreover have "length ps \<in> set [0..<Suc (length s)]"
    using s by simp
  ultimately show "occurs_in k s"
    unfolding occurs_in_def list_ex_iff by blast
qed

text \<open>
  A keyword without a space occurs in two texts joined by one space exactly
  when it occurs in one of the two.
\<close>

lemma sublist_joined:
  fixes k :: pystr
  assumes "32 \<notin> set k"
  shows "sublist k (a @ 32 # b) \<longleftrightarrow> sublist k a \<or> sublist k b"
proof -
  have pre: "prefix x (32 # b) \<Longrightarrow> 32 \<notin> set x \<Longrightarrow> x = []" for x
    by (cases x) auto
  have right: "sublist k (32 # b) \<longleftrightarrow> sublist k b"
    using pre [of k] assms by (auto simp: sublist_Cons_right)
  have cross: "sublist k a"
    if "k = x1 @ x2" "suffix x1 a" "prefix x2 (32 # b)" for x1 x2
  proof -
    from that(1) assms have "32 \<notin> set x2" by simp
    with pre that(3) have "x2 = []" by blast
    with that(1,2) show ?thesis by simp
  qed
  show ?thesis
    using right cross by (auto simp: sublist_append)
qed

section \<open>Facts about the classifier\<close>

lemma first_tier_sublist:
  "first_tier spec_tiers s =
     (if list_ex (\<lambda>k. sublist k s) keywords_critico then CRITICO
      else if list_ex (\<lambda>k. sublist k s) keywords_control then CONTROL
      else if list_ex (\<lambda>k. sublist k s) keywords_alerta then ALERTA
      else GENERAL)"
  by (simp add: spec_tiers_def keywords_critico_def keywords_control_def
        keywords_alerta_def occurs_in_iff_sublist)

lemma infarto_fixed: "\<forall>c \<in> set (lit ''INFARTO''). upper_char tbl c = [c]"
  by (simp add: lit_def upper_char_def)

lemma infarto_critico:
  "sublist (lit ''INFARTO'') (upper tbl (d @ lit '' '' @ t)) \<Longrightarrow>
     clasificar_paciente tbl d t = CRITICO"
  by (simp add: clasificar_paciente_def keywords_critico_def)

lemma clasificar_vacio: "clasificar_paciente tbl [] [] = GENERAL"
  by (simp add: clasificar_paciente_def keywords_critico_def keywords_control_def
        keywords_alerta_def lit_def upper_def upper_char_def sublist_code)

lemma keywords_no_space:
  "\<forall>k \<in> set keywords_critico \<union> set keywords_control \<union> set keywords_alerta. 32 \<notin> set k"
  by (simp add: keywords_critico_def keywords_control_def keywords_alerta_def lit_def)

lemma list_ex_joined:
  fixes ks :: "pystr list"
  assumes "\<forall>k \<in> set ks. 32 \<notin> set k"
  shows "list_ex (\<lambda>k. sublist k (a @ 32 # b)) ks = list_ex (\<lambda>k. sublist k (b @ 32 # a)) ks"
  using assms by (auto simp: list_ex_iff sublist_joined)

section \<open>Facts about the roster ids\<close>

lemma str_get0_split:
  "str_get0 (split_char sep s) = Some (takeWhile (\<lambda>c. c \<noteq> sep) s)"
  by (induction s) (auto simp: str_get0_def split: list.splits)

lemma takeWhile_no_sep: "sep \<notin> set s \<Longrightarrow> takeWhile (\<lambda>c. c \<noteq> sep) s = s"
  by (induction s) auto

lemma dropWhile_none: "\<forall>c \<in> set xs. \<not> P c \<Longrightarrow> dropWhile P xs = xs"
  by (cases xs) auto

lemma strip_no_space: "\<forall>c \<in> set s. \<not> isspace c \<Longrightarrow> strip s = s"
  by (simp add: strip_def dropWhile_none)

lemma digit_not_space: "48 \<le> c \<Longrightarrow> c \<le> 57 \<Longrightarrow> \<not> isspace c"
  by (auto simp: isspace_def)

lemma normalizar_dni_spec: "normalizar_dni fmt v = Some (normalizeId_spec fmt v)"
  by (simp add: normalizar_dni_def normalizeId_spec_def str_get0_split Let_def takeWhile_no_sep)

lemma normalizar_digits:
  assumes "list_all (\<lambda>c. 48 \<le> c \<and> c \<le> 57) s"
  shows "normalizar_dni fmt (VStr s) = Some s"
proof -
  from assms have "\<forall>c \<in> set s. \<not> isspace c"
    by (auto simp: list_all_iff digit_not_space)
  then have "strip s = s" by (rule strip_no_space)
  moreover from assms have "46 \<notin> set s"
    by (auto simp: list_all_iff)
  ultimately show ?thesis
    by (simp add: normalizar_dni_def py_str_def str_get0_split takeWhile_no_sep)
qed

lemma limpiar_dni_text:
  assumes "lit ''dni'' \<in> set (columnas df)" and "r \<in> set (filas (limpiar_dni fmt df))"
  shows "\<exists>s. r (lit ''dni'') = Some (VStr s)"
  using assms by (auto simp: limpiar_dni_def normalizar_dni_spec)

lemma find_filter: "find P xs = (case filter P xs of [] \<Rightarrow> None | x # _ \<Rightarrow> Some x)"
  by (induction xs) auto

lemma buscar_dni_find:
  assumes "lit ''dni'' \<in> set (columnas df)"
  shows "buscar_dni df q = Inr (find (\<lambda>r. r (lit ''dni'') = Some (VStr (strip q))) (filas df))"
  using assms by (simp add: buscar_dni_def find_filter Let_def split: list.splits)

section \<open>Facts about the quarter label\<close>

lemma quarter_calendar:
  "1 \<le> month ts \<Longrightarrow> month ts \<le> 12 \<Longrightarrow> quarter ts = quarter_spec (month ts)"
  unfolding quarter_def quarter_spec_def by (simp; presburger)

lemma trimestre_feb: "trimestre_str fecha_feb = lit ''Q1-2024''"
  by (simp add: trimestre_str_def quarter_def fecha_feb_def str_int_def str_nat.simps lit_def)

lemma trimestre_jul: "trimestre_str fecha_jul = lit ''Q3-2024''"
  by (simp add: trimestre_str_def quarter_def fecha_jul_def str_int_def str_nat.simps lit_def)

lemma trimestre_str_nonempty: "trimestre_str ts \<noteq> []"
  by (simp add: trimestre_str_def lit_def)

section \<open>Facts about the count of visits\<close>

lemma historical_columns:
  "get_historical_df num a sheet = Inr df \<Longrightarrow>
     lit ''DNI'' \<in> set (columnas df) \<and> lit ''Trimestre'' \<in> set (columnas df)"
  by (auto simp: get_historical_df_def df_vacio_def set_columna_def Let_def
           split: option.splits if_splits)

lemma atenciones_count:
  "lit ''DNI'' \<in> set (columnas df) \<Longrightarrow> lit ''Trimestre'' \<in> set (columnas df) \<Longrightarrow>
   atenciones_trimestre df (Some q) lbl =
     Inr (length (filter (\<lambda>r. r (lit ''DNI'') = Some (VStr q)
                              \<and> r (lit ''Trimestre'') = Some (VStr lbl)) (filas df)))"
  by (simp add: atenciones_trimestre_def celda_es_def)

lemma contar_exact:
  assumes "get_historical_df num a sheet = Inr df"
  shows "contar_atenciones num a sheet (Some q) ts =
     Inr (length (filter (\<lambda>r. r (lit ''DNI'') = Some (VStr q)
                              \<and> r (lit ''Trimestre'') = Some (VStr (trimestre_str ts)))
                         (filas df)))"
  using historical_columns [OF assms] by (simp add: contar_atenciones_def assms atenciones_count)

lemma contar_absent:
  "contar_atenciones num a None dni ts = Inr 0"
  "abrir_ok a \<Longrightarrow> historico p = None \<Longrightarrow> contar_atenciones num a (Some p) dni ts = Inr 0"
  by (simp_all add: contar_atenciones_def get_historical_df_def df_vacio_def
        atenciones_trimestre_def)

lemma contar_empty:
  "abrir_ok a \<Longrightarrow> leer_ok a \<Longrightarrow> historico p = Some h \<Longrightarrow> get_all_records num h = [] \<Longrightarrow>
     contar_atenciones num a (Some p) dni ts = Inr 0"
  by (simp add: contar_atenciones_def get_historical_df_def DataFrame_def set_columna_def
        atenciones_trimestre_def Let_def)

lemma contar_missing_dni:
  assumes "abrir_ok a" "leer_ok a" "historico p = Some h"
    and "lit ''DNI'' \<notin> set (columnas (DataFrame (get_all_records num h)))"
    and "q \<noteq> []"
  shows "contar_atenciones num a (Some p) (Some q) ts = Inr 0"
  using assms
  by (simp add: contar_atenciones_def get_historical_df_def Let_def atenciones_trimestre_def
        set_columna_def celda_es_def)

lemma contar_missing_trimestre:
  assumes "abrir_ok a" "leer_ok a" "historico p = Some h"
    and "lit ''Trimestre'' \<notin> set (columnas (DataFrame (get_all_records num h)))"
  shows "contar_atenciones num a (Some p) dni ts = Inr 0"
  using assms trimestre_str_nonempty [of ts]
  by (simp add: contar_atenciones_def get_historical_df_def Let_def atenciones_trimestre_def
        set_columna_def celda_es_def)

subsection \<open>The count against the log\<close>

lemma map_of_rev_zip_map:
  "map_of (rev (zip ks (map f vs))) c = map_option f (map_of (rev (zip ks vs)) c)"
proof -
  have "zip ks (map f vs) = map (\<lambda>(k, v). (k, f v)) (zip ks vs)"
    by (simp add: zip_map2 case_prod_unfold)
  then show ?thesis
    by (simp add: rev_map map_of_map)
qed

lemma map_of_rev_zip_None:
  assumes "length ks \<le> length vs"
  shows "map_of (rev (zip ks vs)) c = None \<longleftrightarrow> c \<notin> set ks"
proof -
  have "fst ` set (rev (zip ks vs)) = set (map fst (zip ks vs))"
    by simp
  also have "\<dots> = set ks"
    using assms by (simp only: map_fst_zip_take min_absorb1 take_all order_refl length_map)
  finally show ?thesis
    by (simp only: map_of_eq_None_iff)
qed

lemma keys_of_record_gen:
  "d \<in> set (get_all_records num (keys # rows)) \<Longrightarrow> map fst d = keys"
proof -
  assume "d \<in> set (get_all_records num (keys # rows))"
  then obtain r where
    d: "d = zip keys (map num (r @ replicate (length keys - length r) []))"
    by (auto simp: get_all_records_def)
  have "length keys \<le> length (map num (r @ replicate (length keys - length r) []))"
    by simp
  then show ?thesis
    unfolding d by (simp only: map_fst_zip_take min_absorb1 take_all order_refl)
qed

lemma columns_keys:
  assumes "rows \<noteq> []"
  shows "set (columnas (DataFrame (get_all_records num (keys # rows)))) = set keys"
proof -
  let ?data = "get_all_records num (keys # rows)"
  from assms have ne: "?data \<noteq> []"
    by (simp add: get_all_records_def)
  have "set (columnas (DataFrame ?data)) = (\<Union>d \<in> set ?data. set (map fst d))"
    by (simp add: DataFrame_def)
  also have "\<dots> = (\<Union>d \<in> set ?data. set keys)"
    using keys_of_record_gen [of _ num keys rows] by simp
  also have "\<dots> = set keys"
    using ne by (cases ?data) auto
  finally show ?thesis .
qed

lemma dni_not_trimestre: "lit ''DNI'' \<noteq> lit ''Trimestre''"
  by (simp add: lit_def)

lemma historical_rows:
  assumes "abrir_ok a" "leer_ok a" "historico p = Some (keys # rows)" "rows \<noteq> []"
  shows "\<exists>df. get_historical_df num a (Some p) = Inr df
            \<and> filas df = map (completar keys) (filas_de num (keys # rows))"
proof -
  note c = columns_keys [OF assms(4), of num keys]
  have e: "(\<lambda>r. r(k \<mapsto> v)) = (\<lambda>r c. if c = k then Some v else r c)" for k and v :: "'a valor"
    by (auto simp: fun_eq_iff)
  show ?thesis
    using assms(1-3) c dni_not_trimestre
    by (auto simp: get_historical_df_def Let_def set_columna_def filas_de_def completar_def
          fun_eq_iff DataFrame_def)
qed

lemma fila_match_gen:
  assumes c: "c = lit ''DNI'' \<or> c = lit ''Trimestre''"
    and len: "length keys \<le> length vs"
    and solo: "\<forall>s t. num s = VStr t \<longrightarrow> t = s"
    and q: "num q = VStr q"
    and ne: "q \<noteq> [] \<or> c \<in> set keys"
  shows "completar keys (map_of (rev (zip keys (map num vs)))) c = Some (VStr q)
         \<longleftrightarrow> map_of (rev (zip keys vs)) c = Some q"
proof (cases "c \<in> set keys")
  case True
  from map_of_rev_zip_None [OF len, of c] True
  obtain x where x: "map_of (rev (zip keys vs)) c = Some x"
    by auto
  from solo q have "num x = VStr q \<longleftrightarrow> x = q"
    by auto
  with x True show ?thesis
    by (simp add: completar_def map_of_rev_zip_map)
next
  case False
  from map_of_rev_zip_None [OF len, of c] False
  have "map_of (rev (zip keys vs)) c = None"
    by simp
  with False c ne show ?thesis
    by (auto simp: completar_def)
qed

lemma fila_match:
  assumes "c = lit ''DNI'' \<or> c = lit ''Trimestre''"
    and "\<forall>s t. num s = VStr t \<longrightarrow> t = s"
    and "num q = VStr q"
    and "q \<noteq> [] \<or> c \<in> set keys"
  shows "completar keys
           (map_of (rev (zip keys (map num (row @ replicate (length keys - length row) []))))) c
           = Some (VStr q)
         \<longleftrightarrow> celda_de keys row c = Some q"
  unfolding celda_de_def
proof (rule fila_match_gen [OF assms(1) _ assms(2-4)])
  show "length keys \<le> length (row @ replicate (length keys - length row) [])"
    by simp
qed

lemma contar_filas:
  assumes "abrir_ok a" "leer_ok a" "historico p = Some (keys # rows)" "rows \<noteq> []"
  shows "contar_atenciones num a (Some p) (Some q) ts =
           Inr (length (filter
             (\<lambda>row. completar keys (map_of (rev (zip keys
                        (map num (row @ replicate (length keys - length row) [])))))
                        (lit ''DNI'') = Some (VStr q)
                  \<and> completar keys (map_of (rev (zip keys
                        (map num (row @ replicate (length keys - length row) [])))))
                        (lit ''Trimestre'') = Some (VStr (trimestre_str ts))) rows))"
proof -
  from historical_rows [OF assms, of num]
  obtain df where df: "get_historical_df num a (Some p) = Inr df"
    "filas df = map (completar keys) (filas_de num (keys # rows))"
    by blast
  let ?f = "\<lambda>row. completar keys
             (map_of (rev (zip keys (map num (row @ replicate (length keys - length row) [])))))"
  have fil: "filas df = map ?f rows"
    unfolding df(2) filas_de_def get_all_records_def by (simp add: o_def)
  show ?thesis
    using contar_exact [OF df(1), of q ts] fil by (simp add: filter_map o_def)
qed

lemma contar_log:
  assumes "abrir_ok a" "leer_ok a" "historico p = Some h"
    and solo: "\<forall>s t. num s = VStr t \<longrightarrow> t = s"
    and q: "num q = VStr q"
    and lbl: "num (trimestre_str ts) = VStr (trimestre_str ts)"
    and ne: "q \<noteq> [] \<or> lit ''DNI'' \<in> set (encabezado h)"
  shows "contar_atenciones num a (Some p) (Some q) ts
           = Inr (countVisits_spec h q (trimestre_str ts))"
proof (cases h)
  case Nil
  with assms(1-3) show ?thesis
    by (simp add: contar_empty get_all_records_def countVisits_spec_def)
next
  case (Cons keys rows)
  show ?thesis
  proof (cases "rows = []")
    case True
    with Cons assms(1-3) show ?thesis
      by (simp add: contar_empty get_all_records_def countVisits_spec_def)
  next
    case False
    from ne Cons have ne': "q \<noteq> [] \<or> lit ''DNI'' \<in> set keys"
      by (simp add: encabezado_def)
    have d: "completar keys (map_of (rev (zip keys
                 (map num (row @ replicate (length keys - length row) []))))) (lit ''DNI'')
               = Some (VStr q)
             \<longleftrightarrow> celda_de keys row (lit ''DNI'') = Some q" for row
      by (rule fila_match [OF _ solo q ne']) simp
    have t: "completar keys (map_of (rev (zip keys
                 (map num (row @ replicate (length keys - length row) []))))) (lit ''Trimestre'')
               = Some (VStr (trimestre_str ts))
             \<longleftrightarrow> celda_de keys row (lit ''Trimestre'') = Some (trimestre_str ts)" for row
      by (rule fila_match [OF _ solo lbl]) (simp_all add: trimestre_str_nonempty)
    show ?thesis
      unfolding contar_filas [OF assms(1,2) assms(3) [unfolded Cons] False] d t
      by (simp add: countVisits_spec_def Cons)
  qed
qed

lemma contar_id_vacio:
  assumes "abrir_ok a" "leer_ok a" "historico p = Some (keys # rows)"
    and solo: "\<forall>s t. num s = VStr t \<longrightarrow> t = s"
    and lbl: "num (trimestre_str ts) = VStr (trimestre_str ts)"
    and sin: "lit ''DNI'' \<notin> set keys"
  shows "contar_atenciones num a (Some p) (Some []) ts
           = Inr (length (filter
                   (\<lambda>row. celda_de keys row (lit ''Trimestre'') = Some (trimestre_str ts)) rows))"
proof (cases "rows = []")
  case True
  with assms(1-3) show ?thesis
    by (simp add: contar_empty get_all_records_def)
next
  case False
  have d: "completar keys r (lit ''DNI'') = Some (VStr [])" for r :: "pystr \<rightharpoonup> 'a valor"
    using sin by (simp add: completar_def)
  have t: "completar keys (map_of (rev (zip keys
               (map num (row @ replicate (length keys - length row) []))))) (lit ''Trimestre'')
             = Some (VStr (trimestre_str ts))
           \<longleftrightarrow> celda_de keys row (lit ''Trimestre'') = Some (trimestre_str ts)" for row
    by (rule fila_match [OF _ solo lbl]) (simp_all add: trimestre_str_nonempty)
  show ?thesis
    unfolding contar_filas [OF assms(1-3) False] d t by simp
qed

lemma contar_answers:
  assumes "abrir_ok a" "leer_ok a"
  shows "\<exists>n. contar_atenciones num a sheet dni ts = Inr n"
proof -
  from assms have "\<exists>df. get_historical_df num a sheet = Inr df"
    by (cases sheet) (auto simp: get_historical_df_def Let_def split: option.splits)
  then obtain df where df: "get_historical_df num a sheet = Inr df" ..
  from historical_columns [OF df] df show ?thesis
    by (simp add: contar_atenciones_def atenciones_trimestre_def)
qed

lemma columns_subset:
  "set (columnas (DataFrame (get_all_records num (keys # rows)))) \<subseteq> set keys"
proof (cases "rows = []")
  case True
  then show ?thesis
    by (simp add: get_all_records_def DataFrame_def)
next
  case False
  then show ?thesis
    by (simp add: columns_keys)
qed

lemma contar_sin_columna_dni:
  assumes "abrir_ok a" "leer_ok a" "historico p = Some (keys # rows)"
    and "lit ''DNI'' \<notin> set keys" and "q \<noteq> []"
  shows "contar_atenciones num a (Some p) (Some q) ts = Inr 0"
  using assms(1-3) _ assms(5)
proof (rule contar_missing_dni)
  from columns_subset [of num keys rows] assms(4)
  show "lit ''DNI'' \<notin> set (columnas (DataFrame (get_all_records num (keys # rows))))"
    by blast
qed

lemma contar_sin_columna_trimestre:
  assumes "abrir_ok a" "leer_ok a" "historico p = Some (keys # rows)"
    and "lit ''Trimestre'' \<notin> set keys"
  shows "contar_atenciones num a (Some p) dni ts = Inr 0"
  using assms(1-3)
proof (rule contar_missing_trimestre)
  from columns_subset [of num keys rows] assms(4)
  show "lit ''Trimestre'' \<notin> set (columnas (DataFrame (get_all_records num (keys # rows))))"
    by blast
qed

lemma contar_sin_filas:
  assumes "abrir_ok a" "leer_ok a" "historico p = Some h" "length h \<le> 1"
  shows "contar_atenciones num a (Some p) dni ts = Inr 0"
proof -
  from assms(4) have "get_all_records num h = []"
    by (cases h) (simp_all add: get_all_records_def)
  with assms(1-3) show ?thesis
    by (rule contar_empty)
qed

section \<open>Facts about saving and reading back\<close>

lemma campos_record: "map fst (record_data tbl imc data ts st) = campos"
  by (simp add: record_data_def campos_def)

lemma length_campos: "length campos = 12"
  by (simp add: campos_def)

lemma campos_mem: "lit ''DNI'' \<in> set campos" "lit ''Trimestre'' \<in> set campos"
  by (simp_all add: campos_def)

lemma save_ok:
  assumes "abrir_ok a" "crear_ok a" "encabezado_ok a" "escribir_ok a"
  shows "save_historical_record mostrar a (Some p) row =
     (Some (p\<lparr>historico := Some ((case historico p of None \<Rightarrow> [map fst row] | Some h \<Rightarrow> h)
                                   @ [map (mostrar \<circ> snd) row])\<rparr>), Inr True)"
  using assms by (simp add: save_historical_record_def append_values_def split: option.splits)

lemma records_snoc:
  "get_all_records num ((k # rows) @ [r]) =
     get_all_records num (k # rows) @ [zip k (map num (r @ replicate (length k - length r) []))]"
  by (simp add: get_all_records_def)

lemma keys_of_record:
  "d \<in> set (get_all_records num (campos # rows)) \<Longrightarrow> map fst d = campos"
proof -
  assume "d \<in> set (get_all_records num (campos # rows))"
  then obtain r where
    d: "d = zip campos (map num (r @ replicate (length campos - length r) []))"
    by (auto simp: get_all_records_def)
  have "length campos \<le> length (map num (r @ replicate (length campos - length r) []))"
    by simp
  then show ?thesis
    unfolding d by (simp only: map_fst_zip_take min_absorb1 take_all order_refl)
qed

lemma columns_campos:
  assumes "rows \<noteq> []"
  shows "set (columnas (DataFrame (get_all_records num (campos # rows)))) = set campos"
proof -
  let ?data = "get_all_records num (campos # rows)"
  from assms have ne: "?data \<noteq> []"
    by (simp add: get_all_records_def)
  have "set (columnas (DataFrame ?data)) = (\<Union>d \<in> set ?data. set (map fst d))"
    by (simp add: DataFrame_def)
  also have "\<dots> = (\<Union>d \<in> set ?data. set campos)"
    using keys_of_record [of _ num rows] by simp
  also have "\<dots> = set campos"
    using ne by (cases ?data) auto
  finally show ?thesis .
qed

lemma historical_campos:
  assumes "abrir_ok a" "leer_ok a" "historico p = Some (campos # rows)"
  shows "\<exists>df. get_historical_df num a (Some p) = Inr df \<and> filas df = filas_de num (campos # rows)
             \<and> lit ''DNI'' \<in> set (columnas df) \<and> lit ''Trimestre'' \<in> set (columnas df)"
proof (cases rows)
  case Nil
  with assms show ?thesis
    by (simp add: get_historical_df_def Let_def DataFrame_def get_all_records_def
          set_columna_def filas_de_def)
next
  case (Cons r rs)
  then have "rows \<noteq> []" by simp
  from columns_campos [OF this, of num] campos_mem assms show ?thesis
    by (simp add: get_historical_df_def Let_def filas_de_def) (simp add: DataFrame_def)
qed

lemma contar_campos:
  assumes "abrir_ok a" "leer_ok a" "historico p = Some (campos # rows)"
  shows "contar_atenciones num a (Some p) (Some q) ts =
     Inr (length (filter (\<lambda>r. r (lit ''DNI'') = Some (VStr q)
                              \<and> r (lit ''Trimestre'') = Some (VStr (trimestre_str ts)))
                         (filas_de num (campos # rows))))"
proof -
  from historical_campos [OF assms, of num] obtain df where
    df: "get_historical_df num a (Some p) = Inr df" "filas df = filas_de num (campos # rows)"
    by blast
  from contar_exact [OF df(1)] df(2) show ?thesis by simp
qed

lemma nuevo_dni:
  "map_of (rev (zip campos (map num (map (mostrar \<circ> snd) (record_data tbl imc data ts st)))))
     (lit ''DNI'')
   = Some (num (mostrar (case current_dni st of None \<Rightarrow> VNone | Some d \<Rightarrow> VStr d)))"
  by (simp add: campos_def record_data_def lit_def)

lemma nuevo_trimestre:
  "map_of (rev (zip campos (map num (map (mostrar \<circ> snd) (record_data tbl imc data ts st)))))
     (lit ''Trimestre'')
   = Some (num (mostrar (VStr (trimestre_str ts))))"
  by (simp add: campos_def record_data_def lit_def)


lemma filas_snoc:
  "filas_de num (campos # rows @ [map (mostrar \<circ> snd) (record_data tbl imc data ts st)]) =
     filas_de num (campos # rows)
     @ [map_of (rev (zip campos (map num (map (mostrar \<circ> snd) (record_data tbl imc data ts st)))))]"
proof -
  have "length (map (mostrar \<circ> snd) (record_data tbl imc data ts st)) = length campos"
    by (simp add: record_data_def campos_def)
  then show ?thesis
    using records_snoc [of num campos rows "map (mostrar \<circ> snd) (record_data tbl imc data ts st)"]
    by (simp add: filas_de_def)
qed

lemma round_trip:
  assumes ok: "abrir_ok a" "crear_ok a" "encabezado_ok a" "escribir_ok a" "leer_ok a"
    and h: "historico p = None \<or> (\<exists>rows. historico p = Some (campos # rows))"
    and d: "current_dni st = Some d"
  shows "\<exists>n. contar_atenciones num a (Some p) (Some d) ts = Inr n
          \<and> contar_atenciones num a (fst (bloque_guardar tbl imc mostrar a (Some p) data ts st))
               (Some d) ts =
             Inr (n + (if num (mostrar (VStr d)) = VStr d
                          \<and> num (mostrar (VStr (trimestre_str ts))) = VStr (trimestre_str ts)
                       then 1 else 0))"
proof -
  let ?row = "record_data tbl imc data ts st"
  let ?M = "\<lambda>r. r (lit ''DNI'') = Some (VStr d)
                 \<and> r (lit ''Trimestre'') = Some (VStr (trimestre_str ts))"
  let ?nuevo = "map_of (rev (zip campos (map num (map (mostrar \<circ> snd) ?row))))"
  obtain rows where rows: "(case historico p of None \<Rightarrow> [campos] | Some h \<Rightarrow> h) = campos # rows"
    and antes: "contar_atenciones num a (Some p) (Some d) ts =
                  Inr (length (filter ?M (filas_de num (campos # rows))))"
  proof (cases "historico p")
    case None
    have "contar_atenciones num a (Some p) (Some d) ts =
            Inr (length (filter ?M (filas_de num (campos # []))))"
      using contar_absent(2) [OF ok(1) None, of num "Some d" ts]
      by (simp add: filas_de_def get_all_records_def)
    with None show ?thesis by (intro that [of "[]"]) simp_all
  next
    case (Some h0)
    with h obtain rs where rs: "historico p = Some (campos # rs)" by auto
    from contar_campos [OF ok(1) ok(5) rs, of num d ts] rs show ?thesis
      by (intro that [of rs]) simp_all
  qed
  let ?p' = "p\<lparr>historico := Some (campos # rows @ [map (mostrar \<circ> snd) ?row])\<rparr>"
  have guardado: "fst (bloque_guardar tbl imc mostrar a (Some p) data ts st) = Some ?p'"
    using rows
    by (auto simp: bloque_guardar_def save_ok [OF ok(1-4)] campos_record
          split: option.splits prod.splits)
  have "contar_atenciones num a (Some ?p') (Some d) ts =
          Inr (length (filter ?M (filas_de num (campos # rows @ [map (mostrar \<circ> snd) ?row]))))"
    by (rule contar_campos [OF ok(1) ok(5)]) simp
  also have "\<dots> = Inr (length (filter ?M (filas_de num (campos # rows))) + (if ?M ?nuevo then 1 else 0))"
    by (simp add: filas_snoc)
  also have "?M ?nuevo \<longleftrightarrow> num (mostrar (VStr d)) = VStr d
                 \<and> num (mostrar (VStr (trimestre_str ts))) = VStr (trimestre_str ts)"
    by (simp only: nuevo_dni nuevo_trimestre d option.simps)
  finally have despues:
    "contar_atenciones num a (Some ?p') (Some d) ts =
       Inr (length (filter ?M (filas_de num (campos # rows)))
            + (if num (mostrar (VStr d)) = VStr d
                  \<and> num (mostrar (VStr (trimestre_str ts))) = VStr (trimestre_str ts)
               then 1 else 0))" .
  show ?thesis
    unfolding guardado using antes despues by blast
qed

section \<open>Facts about floats and the form\<close>

lemmas b64_eval =
  redondear_def ilog2_ratio_def rne_div_def bitlen.simps normal.simps Let_def decimal_def

lemma decimal_0: "decimal 0 1 = Finite 0 0"
  by (simp add: b64_eval)

lemma decimal_70: "decimal 70 1 = Finite 35 1"
  by (simp add: b64_eval)

lemma decimal_175: "decimal 175 100 = Finite 7 (- 2)"
  by (simp add: b64_eval)

lemma decimal_2286: "decimal 2286 100 = Finite 1608629491901399 (- 46)"
  by (simp add: b64_eval)

lemma decimal_tiny: "decimal 1 (10 ^ 200) = Finite 1723641332219371 (- 715)"
  by (simp add: b64_eval)

lemma decimal_huge: "decimal (10 ^ 200) 1 = Finite 2941796710330669 613"
  by (simp add: b64_eval)

lemma redondear_limits:
  "redondear False 1 1 (- 1075) = Finite 0 0"
  "redondear False 3 1 (- 1075) = Finite 1 (- 1073)"
  "redondear False (2 ^ 53 - 1) 1 971 = Finite 9007199254740991 971"
  "redondear False (2 ^ 54 - 1) 1 970 = PInf"
  by (simp_all add: b64_eval)

lemma pow2_175: "float_pow2 (Finite 7 (- 2)) = Inr (Finite 49 (- 4))"
  by (simp add: float_pow2_def b64_eval)

lemma div_70_175:
  "float_div (Finite 35 1) (Finite 49 (- 4)) = Inr (Finite 6433713753386423 (- 48))"
  by (simp add: float_div_def b64_eval)

lemma round2_quotient:
  "float_round2 (Finite 6433713753386423 (- 48)) = Inr (Finite 1608629491901399 (- 46))"
  by (simp add: float_round2_def b64_eval)

lemma pow2_tiny: "float_pow2 (Finite 1723641332219371 (- 715)) = Inr (Finite 0 0)"
  by (simp add: float_pow2_def b64_eval)

lemma pow2_huge: "float_pow2 (Finite 2941796710330669 613) = Inl OverflowError"
  by (simp add: float_pow2_def b64_eval)

lemma reiniciar_refused:
  "asignar_todo reiniciar_formulario st = (st, Some (StreamlitAPIException (lit ''peso_input'')))"
  by (simp add: reiniciar_formulario_def widgets_instanciados_def)

lemma guardar_texto_contado:
  assumes "abrir_ok a" "crear_ok a" "encabezado_ok a" "escribir_ok a" "leer_ok a"
    and "historico p = None \<or> (\<exists>rows. historico p = Some (campos # rows))"
    and "current_dni st = Some d"
    and "num (mostrar (VStr d)) = VStr d"
    and "num (mostrar (VStr (trimestre_str ts))) = VStr (trimestre_str ts)"
  shows "\<exists>n. contar_atenciones num a (Some p) (Some d) ts = Inr n
          \<and> contar_atenciones num a (fst (bloque_guardar tbl imc mostrar a (Some p) data ts st))
               (Some d) ts = Inr (n + 1)"
  using round_trip [OF assms(1-7), of num ts tbl imc mostrar data] assms(8,9) by simp

section \<open>The claims\<close>

text \<open>
  C1. \<open>clasificar_paciente\<close> equals the reference definition: upper-case the
  diagnosis and the treatment joined by one space, return the first of the
  tiers CRITICO, CONTROL, ALERTA whose keyword list has a member that occurs in
  the text, GENERAL otherwise. Whenever \<open>INFARTO\<close> occurs in the joined text,
  before or after the upper-casing, the result is CRITICO whatever else the
  text holds, and two empty texts give GENERAL.
\<close>

theorem clasificar_paciente_refines_spec:
  "clasificar_paciente tbl d t = classify_spec tbl d t
   \<and> (sublist (lit ''INFARTO'') (d @ lit '' '' @ t) \<longrightarrow> clasificar_paciente tbl d t = CRITICO)
   \<and> (sublist (lit ''INFARTO'') (upper tbl (d @ lit '' '' @ t))
        \<longrightarrow> clasificar_paciente tbl d t = CRITICO)
   \<and> clasificar_paciente tbl [] [] = GENERAL"
proof (intro conjI impI)
  show "clasificar_paciente tbl d t = classify_spec tbl d t"
    by (simp add: clasificar_paciente_def classify_spec_def first_tier_sublist lit_space)
next
  assume "sublist (lit ''INFARTO'') (d @ lit '' '' @ t)"
  then have "sublist (lit ''INFARTO'') (upper tbl (d @ lit '' '' @ t))"
    by (rule sublist_upper) (rule infarto_fixed)
  then show "clasificar_paciente tbl d t = CRITICO"
    by (rule infarto_critico)
next
  assume "sublist (lit ''INFARTO'') (upper tbl (d @ lit '' '' @ t))"
  then show "clasificar_paciente tbl d t = CRITICO"
    by (rule infarto_critico)
next
  show "clasificar_paciente tbl [] [] = GENERAL"
    by (rule clasificar_vacio)
qed

theorem clasificar_paciente_infarto_witness:
  "sublist (lit ''INFARTO'') (lit ''INFARTO previo'' @ lit '' '' @ lit ''toma losartan'')
   \<and> sublist (lit ''INFARTO'')
        (upper tbl_id (lit ''INFARTO previo'' @ lit '' '' @ lit ''toma losartan''))
   \<and> clasificar_paciente tbl_id (lit ''INFARTO previo'') (lit ''toma losartan'') = CRITICO
   \<and> classify_spec tbl_id (lit ''INFARTO previo'') (lit ''toma losartan'') = CRITICO"
proof -
  have raw: "sublist (lit ''INFARTO'') (lit ''INFARTO previo'' @ lit '' '' @ lit ''toma losartan'')"
    by (simp add: lit_def sublist_code)
  then have up: "sublist (lit ''INFARTO'')
                   (upper tbl_id (lit ''INFARTO previo'' @ lit '' '' @ lit ''toma losartan''))"
    by (rule sublist_upper) (rule infarto_fixed)
  note th = clasificar_paciente_refines_spec
               [of tbl_id "lit ''INFARTO previo''" "lit ''toma losartan''"]
  from th raw
  have c: "clasificar_paciente tbl_id (lit ''INFARTO previo'') (lit ''toma losartan'') = CRITICO"
    by blast
  from th have "clasificar_paciente tbl_id (lit ''INFARTO previo'') (lit ''toma losartan'')
                  = classify_spec tbl_id (lit ''INFARTO previo'') (lit ''toma losartan'')"
    by blast
  with c have "classify_spec tbl_id (lit ''INFARTO previo'') (lit ''toma losartan'') = CRITICO"
    by simp
  with raw up c show ?thesis
    by blast
qed

text \<open>
  C2, as amended. The search cleans the query by \<open>str(...).strip()\<close> only: it
  trims the white space and does not cut the query at a decimal point, as the
  cleaning of the roster ids does. It then compares texts for equality with
  the roster ids, with no numeric coercion, and takes the first matching row,
  or none when no row matches. A query that is not empty puts that result into
  the session state. With the roster ids 00123 and 456, the query 00123 finds
  the first row and the query 123 finds none.
\<close>

theorem buscar_dni_strip_exact:
  assumes "lit ''dni'' \<in> set (columnas df)"
  shows
    "buscar_dni df q = Inr (find (\<lambda>r. r (lit ''dni'') = Some (VStr (strip q))) (filas df))
     \<and> (q \<noteq> [] \<longrightarrow>
          bloque_busqueda df True q st =
            Inr (case find (\<lambda>r. r (lit ''dni'') = Some (VStr (strip q))) (filas df) of
                   None \<Rightarrow> st\<lparr>current_data := None, current_dni := None\<rparr>
                 | Some r \<Rightarrow> st\<lparr>current_data := Some r, current_dni := Some (strip q)\<rparr>))
     \<and> buscar_dni padron_ejemplo (lit ''00123'') = Inr (Some (filas padron_ejemplo ! 0))
     \<and> buscar_dni padron_ejemplo (lit ''123'') = Inr None"
proof (intro conjI impI)
  show "buscar_dni df q = Inr (find (\<lambda>r. r (lit ''dni'') = Some (VStr (strip q))) (filas df))"
    using assms by (rule buscar_dni_find)
  then show "bloque_busqueda df True q st =
            Inr (case find (\<lambda>r. r (lit ''dni'') = Some (VStr (strip q))) (filas df) of
                   None \<Rightarrow> st\<lparr>current_data := None, current_dni := None\<rparr>
                 | Some r \<Rightarrow> st\<lparr>current_data := Some r, current_dni := Some (strip q)\<rparr>)"
    if "q \<noteq> []"
    using that by (simp add: bloque_busqueda_def split: option.splits)
  show "buscar_dni padron_ejemplo (lit ''00123'') = Inr (Some (filas padron_ejemplo ! 0))"
    by (simp add: buscar_dni_def padron_ejemplo_def lit_def strip_def isspace_def)
  show "buscar_dni padron_ejemplo (lit ''123'') = Inr None"
    by (simp add: buscar_dni_def padron_ejemplo_def lit_def strip_def isspace_def)
qed

theorem buscar_dni_strip_exact_witness:
  "lit ''dni'' \<in> set (columnas padron_ejemplo)
   \<and> lit '' 456 '' \<noteq> []
   \<and> strip (lit '' 456 '') = lit ''456''
   \<and> buscar_dni padron_ejemplo (lit '' 456 '') = Inr (Some (filas padron_ejemplo ! 1))
   \<and> bloque_busqueda padron_ejemplo True (lit '' 456 '') sesion_ej =
       Inr (sesion_ej\<lparr>current_data := Some (filas padron_ejemplo ! 1),
                      current_dni := Some (lit ''456'')\<rparr>)"
proof -
  have col: "lit ''dni'' \<in> set (columnas padron_ejemplo)"
    by (simp add: padron_ejemplo_def)
  have st: "strip (lit '' 456 '') = lit ''456''"
    by (simp add: strip_def lit_def isspace_def)
  have fnd: "find (\<lambda>r. r (lit ''dni'') = Some (VStr (lit ''456''))) (filas padron_ejemplo)
               = Some (filas padron_ejemplo ! 1)"
    by (simp add: padron_ejemplo_def lit_def)
  have ne: "lit '' 456 '' \<noteq> []"
    by (simp add: lit_def)
  show ?thesis
    using buscar_dni_strip_exact [OF col, of "lit '' 456 ''" sesion_ej] col ne
    by (simp add: st fnd)
qed

text \<open>
  The claim as it was stated fails: the roster id 456 is found by the query
  456.0 once the query is cut at the point, but the search does not cut it.
\<close>

theorem buscar_dni_no_truncation_counterexample:
  "buscar_dni padron_ejemplo (lit ''456.0'') = Inr None
   \<and> findById_spec fmt_ej padron_ejemplo (lit ''456.0'') = Some (filas padron_ejemplo ! 1)"
  by (simp add: buscar_dni_def findById_spec_def normalizeId_spec_def py_str_def
        padron_ejemplo_def lit_def strip_def isspace_def)

text \<open>
  C3. The round trip of a saved visit: the save block appends the record and
  succeeds, and the next count of the visits of the same patient and quarter
  reads the log again. The count is then one greater only when the log gives
  the saved id back as the same text. The record is written with the input
  option \<open>USER_ENTERED\<close>, and \<open>get_historical_df\<close> compares what
  \<open>get_all_records\<close> returns with the text of the id without casting it, as
  \<open>get_padron_df\<close> does for the roster: when the id comes back as an integer,
  the count after the save is the count before it.
\<close>

theorem guardar_dni_numerico_no_contado:
  assumes "abrir_ok a" "crear_ok a" "encabezado_ok a" "escribir_ok a" "leer_ok a"
    and "historico p = None \<or> (\<exists>rows. historico p = Some (campos # rows))"
    and "current_dni st = Some d"
    and "num (mostrar (VStr d)) = VInt k"
  shows "snd (save_historical_record mostrar a (Some p) (record_data tbl imc data ts st))
           = Inr True
         \<and> (\<exists>n. contar_atenciones num a (Some p) (Some d) ts = Inr n
                \<and> contar_atenciones num a
                     (fst (bloque_guardar tbl imc mostrar a (Some p) data ts st)) (Some d) ts
                   = Inr n)"
proof
  show "snd (save_historical_record mostrar a (Some p) (record_data tbl imc data ts st))
          = Inr True"
    by (simp add: save_ok [OF assms(1-4)])
  show "\<exists>n. contar_atenciones num a (Some p) (Some d) ts = Inr n
            \<and> contar_atenciones num a
                 (fst (bloque_guardar tbl imc mostrar a (Some p) data ts st)) (Some d) ts
               = Inr n"
    using round_trip [OF assms(1-7), of num ts tbl imc mostrar data] assms(8) by simp
qed

theorem guardar_dni_numerico_witness:
  "numericise_ej (mostrar_ej (VStr (lit ''12345678''))) = VInt 12345678
   \<and> current_dni sesion_ej = Some (lit ''12345678'')
   \<and> historico planilla_nueva = None
   \<and> snd (save_historical_record mostrar_ej api_ok (Some planilla_nueva)
            (record_data tbl_id imc_ej datos_ej fecha_feb sesion_ej)) = Inr True
   \<and> contar_atenciones numericise_ej api_ok (Some planilla_nueva)
        (Some (lit ''12345678'')) fecha_feb = Inr 0
   \<and> contar_atenciones numericise_ej api_ok
        (fst (bloque_guardar tbl_id imc_ej mostrar_ej api_ok (Some planilla_nueva)
                datos_ej fecha_feb sesion_ej))
        (Some (lit ''12345678'')) fecha_feb = Inr 0"
proof -
  have ok: "abrir_ok api_ok" "crear_ok api_ok" "encabezado_ok api_ok" "escribir_ok api_ok"
    "leer_ok api_ok"
    by (simp_all add: api_ok_def)
  have h: "historico planilla_nueva = None"
    by (simp add: planilla_nueva_def)
  have d: "current_dni sesion_ej = Some (lit ''12345678'')"
    by (simp add: sesion_ej_def)
  have n: "numericise_ej (mostrar_ej (VStr (lit ''12345678''))) = VInt 12345678"
    by (simp add: numericise_ej_def mostrar_ej_def py_str_def valor_decimal_def lit_def)
  have antes: "contar_atenciones numericise_ej api_ok (Some planilla_nueva)
                 (Some (lit ''12345678'')) fecha_feb = Inr 0"
    using ok(1) h by (rule contar_absent(2))
  have h': "historico planilla_nueva = None
              \<or> (\<exists>rows. historico planilla_nueva = Some (campos # rows))"
    using h by simp
  show ?thesis
    using guardar_dni_numerico_no_contado
            [where num = numericise_ej and mostrar = mostrar_ej and a = api_ok
               and p = planilla_nueva and st = sesion_ej and d = "lit ''12345678''"
               and k = 12345678 and tbl = tbl_id and imc = imc_ej and data = datos_ej
               and ts = fecha_feb, OF ok h' d n]
      antes n d h
    by simp
qed

text \<open>
  C4, as amended. Where the reader of the log leaves the queried id and the
  label of the current quarter as the texts they are, the count of the visits
  of the quarter is exactly the number of rows of the log whose DNI cell
  shows the queried id and whose Trimestre cell shows the label; for the
  empty id this needs the log to have a DNI column. The count is 0 when there
  is no connection, no worksheet of the log or no record in it. Whenever the
  remote calls answer the count is a number: a missing column raises nothing.
  A log without the DNI or the Trimestre column gets that column with the
  empty text in every row, so its rows match no id that is not empty and no
  quarter label; the empty id does match the rows of a log without the DNI
  column. What the count is for an id that is read back as a number, and
  what happens when a remote call fails, is not part of the statement.
\<close>

theorem contar_atenciones_exact:
  "(abrir_ok a \<and> leer_ok a \<and> historico p = Some h
      \<and> (\<forall>s t. num s = VStr t \<longrightarrow> t = s) \<and> num q = VStr q
      \<and> num (trimestre_str ts) = VStr (trimestre_str ts)
      \<and> (q \<noteq> [] \<or> lit ''DNI'' \<in> set (encabezado h))
      \<longrightarrow> contar_atenciones num a (Some p) (Some q) ts
            = Inr (countVisits_spec h q (trimestre_str ts)))
   \<and> contar_atenciones num a None dni ts = Inr 0
   \<and> (abrir_ok a \<and> historico p0 = None \<longrightarrow> contar_atenciones num a (Some p0) dni ts = Inr 0)
   \<and> (abrir_ok a \<and> leer_ok a \<and> historico p1 = Some h1 \<and> length h1 \<le> 1
        \<longrightarrow> contar_atenciones num a (Some p1) dni ts = Inr 0)
   \<and> (abrir_ok a \<and> leer_ok a \<longrightarrow> (\<exists>n. contar_atenciones num a sheet dni ts = Inr n))
   \<and> (abrir_ok a \<and> leer_ok a \<and> historico p2 = Some (keys2 # rows2)
        \<and> lit ''DNI'' \<notin> set keys2 \<and> q2 \<noteq> []
        \<longrightarrow> contar_atenciones num a (Some p2) (Some q2) ts = Inr 0)
   \<and> (abrir_ok a \<and> leer_ok a \<and> historico p3 = Some (keys3 # rows3)
        \<and> lit ''Trimestre'' \<notin> set keys3
        \<longrightarrow> contar_atenciones num a (Some p3) dni ts = Inr 0)
   \<and> (abrir_ok a \<and> leer_ok a \<and> historico p4 = Some (keys4 # rows4)
        \<and> (\<forall>s t. num s = VStr t \<longrightarrow> t = s)
        \<and> num (trimestre_str ts) = VStr (trimestre_str ts)
        \<and> lit ''DNI'' \<notin> set keys4
        \<longrightarrow> contar_atenciones num a (Some p4) (Some []) ts
              = Inr (length (filter
                  (\<lambda>row. celda_de keys4 row (lit ''Trimestre'') = Some (trimestre_str ts))
                  rows4)))"
proof (intro conjI impI)
  show "contar_atenciones num a (Some p) (Some q) ts
          = Inr (countVisits_spec h q (trimestre_str ts))"
    if "abrir_ok a \<and> leer_ok a \<and> historico p = Some h
        \<and> (\<forall>s t. num s = VStr t \<longrightarrow> t = s) \<and> num q = VStr q
        \<and> num (trimestre_str ts) = VStr (trimestre_str ts)
        \<and> (q \<noteq> [] \<or> lit ''DNI'' \<in> set (encabezado h))"
    using that by (intro contar_log) blast+
  show "contar_atenciones num a None dni ts = Inr 0"
    by (rule contar_absent(1))
  show "contar_atenciones num a (Some p0) dni ts = Inr 0"
    if "abrir_ok a \<and> historico p0 = None"
    using that by (simp add: contar_absent(2))
  show "contar_atenciones num a (Some p1) dni ts = Inr 0"
    if "abrir_ok a \<and> leer_ok a \<and> historico p1 = Some h1 \<and> length h1 \<le> 1"
    using that by (intro contar_sin_filas [of a p1 h1]) blast+
  show "\<exists>n. contar_atenciones num a sheet dni ts = Inr n"
    if "abrir_ok a \<and> leer_ok a"
    using that by (intro contar_answers) blast+
  show "contar_atenciones num a (Some p2) (Some q2) ts = Inr 0"
    if "abrir_ok a \<and> leer_ok a \<and> historico p2 = Some (keys2 # rows2)
        \<and> lit ''DNI'' \<notin> set keys2 \<and> q2 \<noteq> []"
    using that by (intro contar_sin_columna_dni [of a p2 keys2 rows2]) blast+
  show "contar_atenciones num a (Some p3) dni ts = Inr 0"
    if "abrir_ok a \<and> leer_ok a \<and> historico p3 = Some (keys3 # rows3)
        \<and> lit ''Trimestre'' \<notin> set keys3"
    using that by (intro contar_sin_columna_trimestre [of a p3 keys3 rows3]) blast+
  show "contar_atenciones num a (Some p4) (Some []) ts
          = Inr (length (filter
              (\<lambda>row. celda_de keys4 row (lit ''Trimestre'') = Some (trimestre_str ts)) rows4))"
    if "abrir_ok a \<and> leer_ok a \<and> historico p4 = Some (keys4 # rows4)
        \<and> (\<forall>s t. num s = VStr t \<longrightarrow> t = s)
        \<and> num (trimestre_str ts) = VStr (trimestre_str ts)
        \<and> lit ''DNI'' \<notin> set keys4"
    using that by (intro contar_id_vacio) blast+
qed

theorem contar_atenciones_exact_witness:
  "abrir_ok api_ok \<and> leer_ok api_ok
   \<and> historico planilla_mixta = Some hoja_mixta
   \<and> numericise_ej (lit ''A12'') = VStr (lit ''A12'')
   \<and> numericise_ej (trimestre_str fecha_feb) = VStr (trimestre_str fecha_feb)
   \<and> lit ''A12'' \<noteq> []
   \<and> countVisits_spec hoja_mixta (lit ''A12'') (trimestre_str fecha_feb) = 2
   \<and> contar_atenciones numericise_ej api_ok (Some planilla_mixta) (Some (lit ''A12'')) fecha_feb
       = Inr 2
   \<and> historico planilla_nueva = None
   \<and> contar_atenciones numericise_ej api_ok (Some planilla_nueva) (Some (lit ''A12'')) fecha_feb
       = Inr 0
   \<and> historico planilla_sin_registros = Some hoja_sin_registros
   \<and> length hoja_sin_registros \<le> 1
   \<and> contar_atenciones numericise_ej api_ok (Some planilla_sin_registros) (Some (lit ''A12''))
       fecha_feb = Inr 0
   \<and> historico planilla_sin_dni = Some hoja_sin_dni
   \<and> lit ''DNI'' \<notin> set (encabezado hoja_sin_dni)
   \<and> contar_atenciones numericise_ej api_ok (Some planilla_sin_dni) (Some (lit ''A12'')) fecha_feb
       = Inr 0
   \<and> contar_atenciones numericise_ej api_ok (Some planilla_sin_dni) (Some []) fecha_feb = Inr 1
   \<and> historico planilla_sin_trimestre = Some hoja_sin_trimestre
   \<and> lit ''Trimestre'' \<notin> set (encabezado hoja_sin_trimestre)
   \<and> contar_atenciones numericise_ej api_ok (Some planilla_sin_trimestre) (Some (lit ''A12''))
       fecha_feb = Inr 0"
proof -
  note th = contar_atenciones_exact
              [where num = numericise_ej and a = api_ok and p = planilla_mixta
                 and h = hoja_mixta and q = "lit ''A12''" and ts = fecha_feb
                 and dni = "Some (lit ''A12'')" and sheet = "Some planilla_mixta"
                 and ?p0.0 = planilla_nueva
                 and ?p1.0 = planilla_sin_registros and ?h1.0 = hoja_sin_registros
                 and ?p2.0 = planilla_sin_dni and ?keys2.0 = "[lit ''Fecha'', lit ''Trimestre'']"
                 and ?rows2.0 = "[[lit ''2024-02-15'', lit ''Q1-2024'']]"
                 and ?q2.0 = "lit ''A12''"
                 and ?p3.0 = planilla_sin_trimestre
                 and ?keys3.0 = "[lit ''DNI'', lit ''Fecha'']"
                 and ?rows3.0 = "[[lit ''A12'', lit ''2024-02-15'']]"
                 and ?p4.0 = planilla_sin_dni and ?keys4.0 = "[lit ''Fecha'', lit ''Trimestre'']"
                 and ?rows4.0 = "[[lit ''2024-02-15'', lit ''Q1-2024'']]"]
  have ok: "abrir_ok api_ok" "leer_ok api_ok"
    by (simp_all add: api_ok_def)
  have solo: "\<forall>s t. numericise_ej s = VStr t \<longrightarrow> t = s"
    by (simp add: numericise_ej_def)
  have q: "numericise_ej (lit ''A12'') = VStr (lit ''A12'')" "lit ''A12'' \<noteq> []"
    by (simp_all add: numericise_ej_def lit_def)
  have lbl: "numericise_ej (trimestre_str fecha_feb) = VStr (trimestre_str fecha_feb)"
    by (simp add: trimestre_feb numericise_ej_def lit_def)
  have hm: "historico planilla_mixta = Some hoja_mixta"
    by (simp add: planilla_mixta_def)
  have n: "countVisits_spec hoja_mixta (lit ''A12'') (trimestre_str fecha_feb) = 2"
    by (simp add: countVisits_spec_def hoja_mixta_def celda_de_def trimestre_feb lit_def)
  have h0: "historico planilla_nueva = None"
    by (simp add: planilla_nueva_def)
  have h1: "historico planilla_sin_registros = Some hoja_sin_registros"
    "length hoja_sin_registros \<le> 1"
    by (simp_all add: planilla_sin_registros_def hoja_sin_registros_def)
  have h2: "historico planilla_sin_dni = Some ([lit ''Fecha'', lit ''Trimestre'']
              # [[lit ''2024-02-15'', lit ''Q1-2024'']])"
    "lit ''DNI'' \<notin> set [lit ''Fecha'', lit ''Trimestre'']"
    by (simp_all add: planilla_sin_dni_def hoja_sin_dni_def lit_def)
  have h3: "historico planilla_sin_trimestre = Some ([lit ''DNI'', lit ''Fecha'']
              # [[lit ''A12'', lit ''2024-02-15'']])"
    "lit ''Trimestre'' \<notin> set [lit ''DNI'', lit ''Fecha'']"
    by (simp_all add: planilla_sin_trimestre_def hoja_sin_trimestre_def lit_def)
  have uno: "length (filter
               (\<lambda>row. celda_de [lit ''Fecha'', lit ''Trimestre''] row (lit ''Trimestre'')
                        = Some (trimestre_str fecha_feb))
               [[lit ''2024-02-15'', lit ''Q1-2024'']]) = 1"
    by (simp add: celda_de_def trimestre_feb lit_def)
  have c1: "contar_atenciones numericise_ej api_ok (Some planilla_mixta) (Some (lit ''A12''))
              fecha_feb = Inr (countVisits_spec hoja_mixta (lit ''A12'') (trimestre_str fecha_feb))"
    using th [THEN conjunct1] ok hm solo q lbl by blast
  have c3: "contar_atenciones numericise_ej api_ok (Some planilla_nueva) (Some (lit ''A12''))
              fecha_feb = Inr 0"
    using th [THEN conjunct2, THEN conjunct2, THEN conjunct1] ok h0 by blast
  have c4: "contar_atenciones numericise_ej api_ok (Some planilla_sin_registros)
              (Some (lit ''A12'')) fecha_feb = Inr 0"
    using th [THEN conjunct2, THEN conjunct2, THEN conjunct2, THEN conjunct1] ok h1 by blast
  have c6: "contar_atenciones numericise_ej api_ok (Some planilla_sin_dni) (Some (lit ''A12''))
              fecha_feb = Inr 0"
    using th [THEN conjunct2, THEN conjunct2, THEN conjunct2, THEN conjunct2, THEN conjunct2,
              THEN conjunct1] ok h2 q(2) by blast
  have c7: "contar_atenciones numericise_ej api_ok (Some planilla_sin_trimestre)
              (Some (lit ''A12'')) fecha_feb = Inr 0"
    using th [THEN conjunct2, THEN conjunct2, THEN conjunct2, THEN conjunct2, THEN conjunct2,
              THEN conjunct2, THEN conjunct1] ok h3 by blast
  have c8: "contar_atenciones numericise_ej api_ok (Some planilla_sin_dni) (Some [])
              fecha_feb = Inr 1"
    using th [THEN conjunct2, THEN conjunct2, THEN conjunct2, THEN conjunct2, THEN conjunct2,
              THEN conjunct2, THEN conjunct2] ok h2 solo lbl uno by simp
  have e2: "lit ''DNI'' \<notin> set (encabezado hoja_sin_dni)"
    by (simp add: encabezado_def hoja_sin_dni_def lit_def)
  have e3: "lit ''Trimestre'' \<notin> set (encabezado hoja_sin_trimestre)"
    by (simp add: encabezado_def hoja_sin_trimestre_def lit_def)
  have p2: "historico planilla_sin_dni = Some hoja_sin_dni"
    by (simp add: planilla_sin_dni_def)
  have p3: "historico planilla_sin_trimestre = Some hoja_sin_trimestre"
    by (simp add: planilla_sin_trimestre_def)
  from ok hm q lbl n c1 h0 c3 h1 c4 p2 e2 c6 c8 p3 e3 c7 show ?thesis
    by simp
qed

text \<open>
  The claim as it was stated fails at three inputs. The one row of a log that
  has no DNI column is counted for the empty id, though no row of it has a
  DNI equal to that id. A row whose DNI cell shows 12345678 is read back as
  an integer and not counted for the id 12345678. And when the call that
  opens the worksheet fails, the count fails with it.
\<close>

theorem contar_atenciones_as_stated_counterexample:
  "countVisits_spec hoja_sin_dni [] (trimestre_str fecha_feb) = 0
   \<and> contar_atenciones numericise_ej api_ok (Some planilla_sin_dni) (Some []) fecha_feb = Inr 1
   \<and> countVisits_spec hoja_mixta (lit ''12345678'') (trimestre_str fecha_feb) = 1
   \<and> contar_atenciones numericise_ej api_ok (Some planilla_mixta) (Some (lit ''12345678''))
       fecha_feb = Inr 0
   \<and> contar_atenciones numericise_ej api_sin_conexion (Some planilla_mixta) (Some (lit ''A12''))
       fecha_feb = Inl APIError"
proof (intro conjI)
  show "countVisits_spec hoja_sin_dni [] (trimestre_str fecha_feb) = 0"
    by (simp add: countVisits_spec_def hoja_sin_dni_def celda_de_def lit_def)
  show "contar_atenciones numericise_ej api_ok (Some planilla_sin_dni) (Some []) fecha_feb
          = Inr 1"
    by (simp add: contar_atenciones_def get_historical_df_def atenciones_trimestre_def
          celda_es_def set_columna_def DataFrame_def get_all_records_def Let_def
          trimestre_feb api_ok_def planilla_sin_dni_def hoja_sin_dni_def numericise_ej_def
          lit_def)
  show "countVisits_spec hoja_mixta (lit ''12345678'') (trimestre_str fecha_feb) = 1"
    by (simp add: countVisits_spec_def hoja_mixta_def celda_de_def trimestre_feb lit_def)
  show "contar_atenciones numericise_ej api_ok (Some planilla_mixta) (Some (lit ''12345678''))
          fecha_feb = Inr 0"
    by (simp add: contar_atenciones_def get_historical_df_def atenciones_trimestre_def
          celda_es_def set_columna_def DataFrame_def get_all_records_def Let_def
          trimestre_feb api_ok_def planilla_mixta_def hoja_mixta_def numericise_ej_def
          valor_decimal_def lit_def)
  show "contar_atenciones numericise_ej api_sin_conexion (Some planilla_mixta)
          (Some (lit ''A12'')) fecha_feb = Inl APIError"
    by (simp add: contar_atenciones_def get_historical_df_def api_sin_conexion_def)
qed

text \<open>
  C5. When the append to the log fails, the save block leaves the session
  state as it was, and with it the five values of the form (weight, height,
  blood pressure, diagnosis, treatment); it shows an error and does not rerun.
  This holds when \<open>save_historical_record\<close> returns \<open>False\<close> and when it
  raises. The form is cleared by no run of the block, so it is never cleared
  without a successful save: after a save that returned \<open>True\<close> the first of
  the assignments that would reset the form is refused, the state stays as it
  was, the success message is followed by the message of the unexpected
  error, and the script does not rerun.
\<close>

theorem guardar_failure_keeps_form:
  assumes "bloque_guardar tbl imc mostrar a sheet_conn data fecha_actual st
             = (sheet', st', msgs, rerun)"
  shows
    "(snd (save_historical_record mostrar a sheet_conn
             (record_data tbl imc data fecha_actual st)) = Inr False
        \<longrightarrow> st' = st \<and> form_data st' = form_data st \<and> msgs = [ErrorGuardar] \<and> \<not> rerun)
     \<and> (snd (save_historical_record mostrar a sheet_conn
               (record_data tbl imc data fecha_actual st)) = Inl e
        \<longrightarrow> st' = st \<and> form_data st' = form_data st \<and> msgs = [ErrorInesperado e]
            \<and> \<not> rerun)
     \<and> (snd (save_historical_record mostrar a sheet_conn
               (record_data tbl imc data fecha_actual st)) = Inr True
        \<longrightarrow> st' = st
            \<and> msgs = [Exito, ErrorInesperado (StreamlitAPIException (lit ''peso_input''))]
            \<and> \<not> rerun)
     \<and> form_data st' = form_data st"
  using assms
  by (auto simp: bloque_guardar_def reiniciar_refused split: prod.splits sum.splits bool.splits)

theorem guardar_failure_keeps_form_witness:
  "snd (save_historical_record mostrar_ej api_sin_escritura (Some planilla_nueva)
          (record_data tbl_id imc_ej datos_ej fecha_feb sesion_ej)) = Inr False
   \<and> snd (bloque_guardar tbl_id imc_ej mostrar_ej api_sin_escritura
             (Some planilla_nueva) datos_ej fecha_feb sesion_ej)
       = (sesion_ej, [ErrorGuardar], False)
   \<and> snd (save_historical_record mostrar_ej api_sin_conexion (Some planilla_nueva)
          (record_data tbl_id imc_ej datos_ej fecha_feb sesion_ej)) = Inl APIError
   \<and> snd (bloque_guardar tbl_id imc_ej mostrar_ej api_sin_conexion
             (Some planilla_nueva) datos_ej fecha_feb sesion_ej)
       = (sesion_ej, [ErrorInesperado APIError], False)
   \<and> snd (save_historical_record mostrar_ej api_ok (Some planilla_nueva)
          (record_data tbl_id imc_ej datos_ej fecha_feb sesion_ej)) = Inr True
   \<and> snd (bloque_guardar tbl_id imc_ej mostrar_ej api_ok
             (Some planilla_nueva) datos_ej fecha_feb sesion_ej)
       = (sesion_ej, [Exito, ErrorInesperado (StreamlitAPIException (lit ''peso_input''))],
          False)
   \<and> form_data sesion_ej = (70, 2, lit ''120/80'', lit ''hipertension'', lit ''dieta'')"
proof -
  let ?row = "record_data tbl_id imc_ej datos_ej fecha_feb sesion_ej"
  let ?r = "\<lambda>a. bloque_guardar tbl_id imc_ej mostrar_ej a (Some planilla_nueva)
                  datos_ej fecha_feb sesion_ej"
  have c: "?r a = (fst (?r a), fst (snd (?r a)), fst (snd (snd (?r a))), snd (snd (snd (?r a))))"
    for a
    by simp
  have s1: "snd (save_historical_record mostrar_ej api_sin_escritura (Some planilla_nueva) ?row)
              = Inr False"
    by (simp add: save_historical_record_def append_values_def api_sin_escritura_def
          planilla_nueva_def)
  have s2: "snd (save_historical_record mostrar_ej api_sin_conexion (Some planilla_nueva) ?row)
              = Inl APIError"
    by (simp add: save_historical_record_def api_sin_conexion_def)
  have s3: "snd (save_historical_record mostrar_ej api_ok (Some planilla_nueva) ?row) = Inr True"
    by (simp add: save_historical_record_def append_values_def api_ok_def planilla_nueva_def)
  have f: "form_data sesion_ej = (70, 2, lit ''120/80'', lit ''hipertension'', lit ''dieta'')"
    by (simp add: form_data_def sesion_ej_def)
  have p: "snd x = (fst (snd x), fst (snd (snd x)), snd (snd (snd x)))"
    for x :: "planilla option \<times> int sesion \<times> aviso list \<times> bool"
    by simp
  from guardar_failure_keeps_form [OF c [of api_sin_escritura], of APIError] s1
  have r1: "snd (?r api_sin_escritura) = (sesion_ej, [ErrorGuardar], False)"
    by (subst p) simp
  from guardar_failure_keeps_form [OF c [of api_sin_conexion], of APIError] s2
  have r2: "snd (?r api_sin_conexion) = (sesion_ej, [ErrorInesperado APIError], False)"
    by (subst p) simp
  from guardar_failure_keeps_form [OF c [of api_ok], of APIError] s3
  have r3: "snd (?r api_ok)
              = (sesion_ej, [Exito, ErrorInesperado (StreamlitAPIException (lit ''peso_input''))],
                 False)"
    by (subst p) simp
  from s1 r1 s2 r2 s3 r3 f show ?thesis
    by (intro conjI)
qed

text \<open>
  C6. The cleaning of a roster id casts the cell to a text, trims it and keeps
  what stands before the first decimal point, if there is one. It never fails
  (the split has a first piece for every text), gives the empty text for the
  empty text, leaves a text of digits as it is, leading zeros included, and
  maps " 123.0 " to "123" and "00123" to "00123".
\<close>

theorem normalizar_dni_refines_spec:
  "normalizar_dni fmt v = Some (normalizeId_spec fmt v)
   \<and> normalizar_dni fmt (VStr []) = Some []
   \<and> (list_all (\<lambda>c. 48 \<le> c \<and> c \<le> 57) s \<longrightarrow> normalizar_dni fmt (VStr s) = Some s)
   \<and> normalizar_dni fmt (VStr (lit '' 123.0 '')) = Some (lit ''123'')
   \<and> normalizar_dni fmt (VStr (lit ''00123'')) = Some (lit ''00123'')"
proof (intro conjI impI)
  show "normalizar_dni fmt v = Some (normalizeId_spec fmt v)"
    by (rule normalizar_dni_spec)
  show "normalizar_dni fmt (VStr []) = Some []"
    by (simp add: normalizar_dni_def py_str_def strip_def str_get0_def)
  show "normalizar_dni fmt (VStr s) = Some s" if "list_all (\<lambda>c. 48 \<le> c \<and> c \<le> 57) s"
    using that by (rule normalizar_digits)
  show "normalizar_dni fmt (VStr (lit '' 123.0 '')) = Some (lit ''123'')"
    by (simp add: normalizar_dni_def py_str_def strip_def str_get0_def lit_def isspace_def)
  show "normalizar_dni fmt (VStr (lit ''00123'')) = Some (lit ''00123'')"
    by (simp add: normalizar_dni_def py_str_def strip_def str_get0_def lit_def isspace_def)
qed

theorem normalizar_dni_refines_spec_witness:
  "list_all (\<lambda>c. 48 \<le> c \<and> c \<le> 57) (lit ''0042'')
   \<and> normalizar_dni fmt_ej (VStr (lit ''0042'')) = Some (lit ''0042'')
   \<and> normalizar_dni fmt_ej (VInt 123) = Some (lit ''123'')
   \<and> normalizar_dni fmt_ej (VFloat 123) = Some (lit ''123'')"
proof -
  have "normalizeId_spec fmt_ej (VInt 123) = lit ''123''"
    by (simp add: normalizeId_spec_def py_str_def str_int_def str_nat.simps strip_def
          isspace_def lit_def)
  moreover have "normalizeId_spec fmt_ej (VFloat 123) = lit ''123''"
    by (simp add: normalizeId_spec_def py_str_def fmt_ej_def str_int_def str_nat.simps
          strip_def isspace_def lit_def)
  ultimately show ?thesis
    using normalizar_dni_refines_spec [of fmt_ej "VInt 123" "lit ''0042''"]
      normalizar_dni_refines_spec [of fmt_ej "VFloat 123" "lit ''0042''"]
    by (simp add: lit_def)
qed

text \<open>
  C7. The body-mass index is \<open>0.0\<close> whenever the weight or the height is not
  greater than zero, so for weight 0 and height 1.70 and for weight 70 and
  height 0, and it is 22.86 for weight 70 and height 1.75. It is not the
  rounded quotient for every weight and height greater than zero: the height
  \<open>1e-200\<close> is greater than zero, its square is too small for a float and
  becomes \<open>0.0\<close>, and the division raises \<open>ZeroDivisionError\<close>, which ends the
  run of the form; the height \<open>1e200\<close> raises \<open>OverflowError\<close> in the square.
\<close>

theorem imc_calculado_underflow:
  "gt0 (decimal 70 1) \<and> gt0 (decimal 1 (10 ^ 200))
   \<and> float_pow2 (decimal 1 (10 ^ 200)) = Inr (Finite 0 0)
   \<and> imc_calculado (decimal 70 1) (decimal 1 (10 ^ 200)) = Inl ZeroDivisionError
   \<and> formulario_atencion tbl mostrar a sheet_conn data fecha_actual guardar_btn
        (st\<lparr>peso_input := decimal 70 1, estatura_input := decimal 1 (10 ^ 200)\<rparr>)
       = Inl ZeroDivisionError
   \<and> imc_calculado (decimal 70 1) (decimal (10 ^ 200) 1) = Inl OverflowError
   \<and> imc_calculado (decimal 0 1) (decimal 170 100) = Inr (decimal 0 1)
   \<and> imc_calculado (decimal 70 1) (decimal 0 1) = Inr (decimal 0 1)
   \<and> imc_calculado (decimal 70 1) (decimal 175 100) = Inr (decimal 2286 100)
   \<and> (\<not> (gt0 peso \<and> gt0 estatura) \<longrightarrow> imc_calculado peso estatura = Inr (decimal 0 1))"
proof (intro conjI impI)
  show "gt0 (decimal 70 1)"
    unfolding decimal_70 by (simp add: gt0_def)
  show "gt0 (decimal 1 (10 ^ 200))"
    unfolding decimal_tiny by (simp add: gt0_def)
  show "float_pow2 (decimal 1 (10 ^ 200)) = Inr (Finite 0 0)"
    unfolding decimal_tiny by (rule pow2_tiny)
  show tiny: "imc_calculado (decimal 70 1) (decimal 1 (10 ^ 200)) = Inl ZeroDivisionError"
    unfolding decimal_70 decimal_tiny
    by (simp add: imc_calculado_def gt0_def pow2_tiny float_div_def)
  show "formulario_atencion tbl mostrar a sheet_conn data fecha_actual guardar_btn
          (st\<lparr>peso_input := decimal 70 1, estatura_input := decimal 1 (10 ^ 200)\<rparr>)
         = Inl ZeroDivisionError"
  proof -
    have sel:
      "peso_input (st\<lparr>peso_input := decimal 70 1, estatura_input := decimal 1 (10 ^ 200)\<rparr>)
         = decimal 70 1"
      "estatura_input (st\<lparr>peso_input := decimal 70 1, estatura_input := decimal 1 (10 ^ 200)\<rparr>)
         = decimal 1 (10 ^ 200)"
      by simp_all
    show ?thesis
      unfolding formulario_atencion_def sel tiny by simp
  qed
  show "imc_calculado (decimal 70 1) (decimal (10 ^ 200) 1) = Inl OverflowError"
    unfolding decimal_70 decimal_huge
    by (simp add: imc_calculado_def gt0_def pow2_huge)
  show "imc_calculado (decimal 0 1) (decimal 170 100) = Inr (decimal 0 1)"
    unfolding decimal_0 by (simp add: imc_calculado_def gt0_def)
  show "imc_calculado (decimal 70 1) (decimal 0 1) = Inr (decimal 0 1)"
    unfolding decimal_0 by (simp add: imc_calculado_def gt0_def)
  show "imc_calculado (decimal 70 1) (decimal 175 100) = Inr (decimal 2286 100)"
    unfolding decimal_70 decimal_175 decimal_2286
    by (simp add: imc_calculado_def gt0_def pow2_175 div_70_175 round2_quotient)
  show "imc_calculado peso estatura = Inr (decimal 0 1)" if "\<not> (gt0 peso \<and> gt0 estatura)"
    using that unfolding decimal_0 by (auto simp: imc_calculado_def)
qed

theorem imc_calculado_underflow_witness:
  "\<not> (gt0 (decimal 0 1) \<and> gt0 (decimal 175 100))
   \<and> imc_calculado (decimal 0 1) (decimal 175 100) = Inr (Finite 0 0)"
proof -
  have g: "\<not> (gt0 (decimal 0 1) \<and> gt0 (decimal 175 100))"
    unfolding decimal_0 by (simp add: gt0_def)
  from imc_calculado_underflow [THEN conjunct2, THEN conjunct2, THEN conjunct2,
         THEN conjunct2, THEN conjunct2, THEN conjunct2, THEN conjunct2, THEN conjunct2,
         THEN conjunct2, of "decimal 0 1" "decimal 175 100"] g
  have "imc_calculado (decimal 0 1) (decimal 175 100) = Inr (decimal 0 1)"
    by (rule mp)
  then have "imc_calculado (decimal 0 1) (decimal 175 100) = Inr (Finite 0 0)"
    by (simp only: decimal_0)
  with g show ?thesis
    by (rule conjI)
qed

text \<open>
  C8. The quarter label is a function of the year and the month of the
  timestamp alone: \<open>Q\<close>, the calendar quarter of the month (months 1 to 3 give
  1, 4 to 6 give 2, 7 to 9 give 3, 10 to 12 give 4), a hyphen and the year.
  The label of 2024-02-15 is Q1-2024 and that of 2024-07-01 is Q3-2024.
\<close>

theorem trimestre_str_calendar:
  "(1 \<le> month ts \<and> month ts \<le> 12 \<longrightarrow>
      trimestre_str ts = quarterLabel_spec (year ts) (month ts))
   \<and> (year ts = year ts' \<and> month ts = month ts' \<longrightarrow> trimestre_str ts = trimestre_str ts')
   \<and> trimestre_str fecha_feb = lit ''Q1-2024''
   \<and> trimestre_str fecha_jul = lit ''Q3-2024''"
proof (intro conjI impI)
  show "trimestre_str ts = quarterLabel_spec (year ts) (month ts)"
    if "1 \<le> month ts \<and> month ts \<le> 12"
    using that by (simp add: trimestre_str_def quarterLabel_spec_def quarter_calendar)
  show "trimestre_str ts = trimestre_str ts'" if "year ts = year ts' \<and> month ts = month ts'"
    using that by (simp add: trimestre_str_def quarter_def)
  show "trimestre_str fecha_feb = lit ''Q1-2024''"
    by (rule trimestre_feb)
  show "trimestre_str fecha_jul = lit ''Q3-2024''"
    by (rule trimestre_jul)
qed

theorem trimestre_str_calendar_witness:
  "1 \<le> month fecha_jul \<and> month fecha_jul \<le> 12
   \<and> year fecha_jul = year (fecha_jul\<lparr>day := 31\<rparr>)
   \<and> month fecha_jul = month (fecha_jul\<lparr>day := 31\<rparr>)
   \<and> trimestre_str fecha_jul = quarterLabel_spec 2024 7
   \<and> quarterLabel_spec 2024 7 = lit ''Q3-2024''
   \<and> trimestre_str (fecha_jul\<lparr>day := 31\<rparr>) = lit ''Q3-2024''"
proof -
  have m: "month fecha_jul = 7" "year fecha_jul = 2024"
    by (simp_all add: fecha_jul_def)
  have rng: "1 \<le> month fecha_jul \<and> month fecha_jul \<le> 12"
    by (simp add: m)
  have m': "year fecha_jul = year (fecha_jul\<lparr>day := 31\<rparr>)
              \<and> month fecha_jul = month (fecha_jul\<lparr>day := 31\<rparr>)"
    by simp
  note th = trimestre_str_calendar [of fecha_jul "fecha_jul\<lparr>day := 31\<rparr>"]
  have "trimestre_str fecha_jul = quarterLabel_spec (year fecha_jul) (month fecha_jul)"
    using th [THEN conjunct1] rng by (rule mp)
  then have a: "trimestre_str fecha_jul = quarterLabel_spec 2024 7"
    by (simp only: m)
  have b: "trimestre_str fecha_jul = lit ''Q3-2024''"
    by (rule th [THEN conjunct2, THEN conjunct2, THEN conjunct2])
  have c: "trimestre_str fecha_jul = trimestre_str (fecha_jul\<lparr>day := 31\<rparr>)"
    using th [THEN conjunct2, THEN conjunct1] m' by (rule mp)
  have d: "quarterLabel_spec 2024 7 = lit ''Q3-2024''"
    using a b by (rule trans [OF sym])
  have e: "trimestre_str (fecha_jul\<lparr>day := 31\<rparr>) = lit ''Q3-2024''"
    using c b by (rule trans [OF sym])
  from rng m' a d e show ?thesis
    by (intro conjI) (erule conjunct1 conjunct2 | assumption)+
qed

text \<open>
  C9. The classifier folds no accents: it only upper-cases, so
  \<open>hipertension\<close> becomes \<open>HIPERTENSION\<close>, while the keyword lists hold the
  accented \<open>HIPERTENSI\<acute>ON\<close> and \<open>TRIGLIC\<acute>ERIDOS\<close> (with the code points
  211 and 201). The diagnosis \<open>hipertension\<close> with an empty treatment is
  therefore GENERAL and not CONTROL; with the accented letter it is CONTROL.
\<close>

theorem clasificar_no_accent_folding:
  "upper tbl (lit ''hipertension'') = lit ''HIPERTENSION''
   \<and> lit ''HIPERTENSI'' @ [211] @ lit ''N'' \<in> set keywords_control
   \<and> lit ''TRIGLIC'' @ [201] @ lit ''RIDOS'' \<in> set keywords_alerta
   \<and> clasificar_paciente tbl (lit ''hipertension'') [] = GENERAL
   \<and> clasificar_paciente tbl (lit ''hipertensi'' @ [243] @ lit ''n'') [] = CONTROL"
proof (intro conjI)
  show "upper tbl (lit ''hipertension'') = lit ''HIPERTENSION''"
    by (simp add: upper_def upper_char_def lit_def)
  show "lit ''HIPERTENSI'' @ [211] @ lit ''N'' \<in> set keywords_control"
    by (simp add: keywords_control_def)
  show "lit ''TRIGLIC'' @ [201] @ lit ''RIDOS'' \<in> set keywords_alerta"
    by (simp add: keywords_alerta_def)
  show "clasificar_paciente tbl (lit ''hipertension'') [] = GENERAL"
    by (simp add: clasificar_paciente_def keywords_critico_def keywords_control_def
          keywords_alerta_def lit_def upper_def upper_char_def sublist_code)
  show "clasificar_paciente tbl (lit ''hipertensi'' @ [243] @ lit ''n'') [] = CONTROL"
    by (simp add: clasificar_paciente_def keywords_critico_def keywords_control_def
          keywords_alerta_def lit_def upper_def upper_char_def sublist_code)
qed

text \<open>
  C10. The classifier gives the same tier when the diagnosis and the treatment
  are swapped. No keyword holds a space, so a keyword occurs in the
  upper-cased joined text exactly when it occurs in the upper-cased diagnosis
  or in the upper-cased treatment.
\<close>

theorem clasificar_paciente_commutes:
  "clasificar_paciente tbl d t = clasificar_paciente tbl t d
   \<and> list_all (\<lambda>k. 32 \<notin> set k) (keywords_critico @ keywords_control @ keywords_alerta)
   \<and> list_all (\<lambda>k. sublist k (upper tbl (d @ lit '' '' @ t))
                      = (sublist k (upper tbl d) \<or> sublist k (upper tbl t)))
        (keywords_critico @ keywords_control @ keywords_alerta)"
proof (intro conjI)
  have u: "upper tbl (x @ lit '' '' @ y) = upper tbl x @ 32 # upper tbl y" for x y
    by (simp add: lit_space upper_joined)
  show "clasificar_paciente tbl d t = clasificar_paciente tbl t d"
    unfolding clasificar_paciente_def u Let_def
    using keywords_no_space
    by (simp add: list_ex_joined [of keywords_critico] list_ex_joined [of keywords_control]
          list_ex_joined [of keywords_alerta])
  show "list_all (\<lambda>k. 32 \<notin> set k) (keywords_critico @ keywords_control @ keywords_alerta)"
    using keywords_no_space by (auto simp: list_all_iff)
  show "list_all (\<lambda>k. sublist k (upper tbl (d @ lit '' '' @ t))
                      = (sublist k (upper tbl d) \<or> sublist k (upper tbl t)))
        (keywords_critico @ keywords_control @ keywords_alerta)"
    unfolding u using keywords_no_space by (auto simp: list_all_iff sublist_joined)
qed

end
